theory Spec2Isabelle
  imports Complex_Main "HOL-Library.Sublist"
begin

section \<open>Numbers and strings of the host language\<close>

text \<open>
  The hooks receive \<open>scale\<close>, \<open>dpi\<close> and \<open>fps\<close> as JavaScript numbers, compare them
  (\<open>>=\<close>, \<open><=\<close>, \<open>Array.prototype.includes\<close>) and print them inside template literals.
  A finite number is represented by the decimal it prints as: \<open>Dec m e\<close> stands for
  \<open>m / 10^e\<close>, so \<open>0.25\<close> is \<open>Dec 25 2\<close> and \<open>60\<close> is \<open>Dec 60 0\<close>. \<open>NaN\<close> and the two
  infinities are values of the type as well.
\<close>

datatype number = Dec int nat | NaN | PosInf | NegInf

text \<open>The mathematical value of a finite number.\<close>

fun value_of :: "number \<Rightarrow> real option" where
  "value_of (Dec m e) = Some (real_of_int m / 10 ^ e)"
| "value_of _ = None"

text \<open>\<open>a <= b\<close> on numbers: false as soon as one side is \<open>NaN\<close>.\<close>

fun num_le :: "number \<Rightarrow> number \<Rightarrow> bool" where
  "num_le (Dec m e) (Dec n f) = (m * 10 ^ f \<le> n * 10 ^ e)"
| "num_le NaN _ = False"
| "num_le _ NaN = False"
| "num_le NegInf _ = True"
| "num_le _ PosInf = True"
| "num_le PosInf _ = False"
| "num_le _ NegInf = False"

text \<open>The comparison \<open>includes\<close> uses on array elements (SameValueZero).\<close>

fun sameValueZero :: "number \<Rightarrow> number \<Rightarrow> bool" where
  "sameValueZero (Dec m e) (Dec n f) = (m * 10 ^ f = n * 10 ^ e)"
| "sameValueZero NaN NaN = True"
| "sameValueZero PosInf PosInf = True"
| "sameValueZero NegInf NegInf = True"
| "sameValueZero _ _ = False"

definition digitChar :: "nat \<Rightarrow> char" where
  "digitChar n = ''0123456789'' ! (n mod 10)"

fun showNat :: "nat \<Rightarrow> string" where
  "showNat n = (if n < 10 then [digitChar n] else showNat (n div 10) @ [digitChar n])"

declare showNat.simps [simp del]

definition stripZeros :: "string \<Rightarrow> string" where
  "stripZeros s = rev (dropWhile (\<lambda>c. c = CHR ''0'') (rev s))"

text \<open>
  \<open>Number::toString\<close> of the language standard, for the positive value \<open>a / 10^e\<close>: with
  \<open>sd\<close> the significant digits, \<open>k\<close> their number and \<open>n\<close> the position of the decimal
  point, the value is \<open>0.sd \<times> 10^n\<close>. Positional notation is used for \<open>-6 < n \<le> 21\<close>,
  exponent notation otherwise (from \<open>1e21\<close> upwards and below \<open>1e-6\<close>).
\<close>

definition finiteToString :: "nat \<Rightarrow> nat \<Rightarrow> string" where
  "finiteToString a e =
     (if a = 0 then ''0''
      else
        let ds = showNat a;
            n = int (length ds) - int e;
            sd = stripZeros ds;
            k = int (length sd)
        in if k \<le> n \<and> n \<le> 21 then sd @ replicate (nat (n - k)) (CHR ''0'')
           else if 0 < n \<and> n \<le> 21 then take (nat n) sd @ ''.'' @ drop (nat n) sd
           else if - 6 < n \<and> n \<le> 0 then ''0.'' @ replicate (nat (- n)) (CHR ''0'') @ sd
           else (if k = 1 then sd else take 1 sd @ ''.'' @ drop 1 sd)
                @ ''e'' @ (if n - 1 < 0 then ''-'' else ''+'') @ showNat (nat \<bar>n - 1\<bar>))"

text \<open>What a template literal \<open>`${x}`\<close> prints for a number \<open>x\<close>.\<close>

fun numberToString :: "number \<Rightarrow> string" where
  "numberToString (Dec m e) = (if m < 0 then ''-'' else []) @ finiteToString (nat \<bar>m\<bar>) e"
| "numberToString NaN = ''NaN''"
| "numberToString PosInf = ''Infinity''"
| "numberToString NegInf = ''-Infinity''"

text \<open>\<open>String.prototype.includes\<close>: \<open>t\<close> occurs in \<open>s\<close> as a contiguous run.\<close>

fun str_includes :: "string \<Rightarrow> string \<Rightarrow> bool" where
  "str_includes [] t = (t = [])"
| "str_includes (c # s) t = (prefix t (c # s) \<or> str_includes s t)"

text \<open>
  Truthiness of an optional string, as in \<open>if (jsonFilePath)\<close>: \<open>undefined\<close> and the
  empty string are falsy. \<open>orEmpty x\<close> is \<open>x || ""\<close>.
\<close>

fun truthy :: "string option \<Rightarrow> bool" where
  "truthy None = False"
| "truthy (Some s) = (s \<noteq> [])"

fun orEmpty :: "string option \<Rightarrow> string" where
  "orEmpty None = []"
| "orEmpty (Some s) = s"

section \<open>Parameter validation (src/shared/utils.ts, src/shared/constants.ts)\<close>

definition VALID_FPS :: "number list" where
  "VALID_FPS = [Dec 15 0, Dec 24 0, Dec 30 0, Dec 60 0, Dec 120 0]"

definition validateFPS :: "number \<Rightarrow> bool" where
  "validateFPS fps = list_ex (sameValueZero fps) VALID_FPS"

definition validateScale :: "number \<Rightarrow> bool" where
  "validateScale scale = (num_le (Dec 25 2) scale \<and> num_le scale (Dec 10 1))"

definition validateParameters :: "number \<Rightarrow> number \<Rightarrow> string option" where
  "validateParameters scale fps =
     (if \<not> validateScale scale then
        Some (''Invalid scale: '' @ numberToString scale
              @ ''. Scale must be between 0.25 and 1.0'')
      else if \<not> validateFPS fps then
        Some (''Invalid fps: '' @ numberToString fps
              @ ''. FPS must be one of: 15, 24, 30, 60, 120'')
      else None)"

section \<open>Error sanitizer (the catch block of initializeScene)\<close>

definition sanitize :: "string \<Rightarrow> string" where
  "sanitize msg =
     (if str_includes msg ''404'' \<or> str_includes msg ''Failed to fetch''
        then ''Resource not found''
      else if str_includes msg ''Network'' \<or> str_includes msg ''network''
        then ''Network error occurred''
      else if str_includes msg ''timeout''
        then ''Loading timeout''
      else msg)"

text \<open>The words of the specification: a message \<open>mentions\<close> a word when the word occurs in it.\<close>

definition mentions :: "string \<Rightarrow> string \<Rightarrow> bool" where
  "mentions msg w = (\<exists>ps ss. msg = ps @ w @ ss)"

section \<open>Scene lifecycle controller (useUnicornScene, the shared hooks module)\<close>

text \<open>
  A scene handle returned by the engine: an identity, whether it carries a \<open>destroy\<close>
  method, and the value last written to its \<open>paused\<close> property by the hook.
\<close>

record scene =
  sceneId :: nat
  hasDestroy :: bool
  paused_prop :: "bool option"

record sceneConfig =
  elementId :: string
  cfg_scale :: number
  cfg_dpi :: number
  cfg_fps :: number
  cfg_lazyLoad :: bool
  cfg_altText :: string
  cfg_ariaLabel :: string
  cfg_production :: "bool option"
  filePath :: "string option"
  cfg_projectId :: "string option"

text \<open>
  The parameters of the hook. Callbacks are identified by a token, since the hook
  compares them by identity in its dependency lists; \<open>None\<close> is an omitted callback.
\<close>

record props =
  projectId :: "string option"
  jsonFilePath :: "string option"
  production :: "bool option"
  scale :: number
  dpi :: number
  fps :: number
  lazyLoad :: bool
  altText :: string
  ariaLabel :: string
  isScriptLoaded :: bool
  paused :: "bool option"
  onLoad :: "nat option"
  onError :: "nat option"

text \<open>
  What the surroundings supply at the time of a call: whether
  \<open>window.UnicornStudio?.addScene\<close> is there, and the suffix \<open>Math.random\<close> yields
  for a generated element id.
\<close>

record env =
  engineAvailable :: bool
  randomId :: string

text \<open>The calls the hook makes to the outside, in the order it makes them.\<close>

datatype call =
    AddScene sceneConfig
  | SetTimeout nat nat
  | ClearTimeout nat
  | Destroy scene
  | OnLoad nat
  | OnError nat string
  | ConsoleLog string

text \<open>
  An initialization attempt suspended at \<open>await Promise.race([...])\<close>, with the
  callbacks its closure captured.
\<close>

record attempt =
  attemptId :: nat
  att_onLoad :: "nat option"
  att_onError :: "nat option"

text \<open>
  The refs and state of one hook instance (\<open>element\<close> is \<open>elementRef.current\<close>: the id
  attribute of the container, \<open>None\<close> when there is no container), the props of the last
  commit, the suspended attempts and the calls made so far.
\<close>

record controller =
  element :: "string option"
  sceneRef :: "scene option"
  initError :: "string option"
  hasAttemptedRef :: bool
  initializationKeyRef :: string
  isInitializingRef :: bool
  prevValidationError :: "string option"
  rendered :: "props option"
  pending :: "attempt list"
  nextAttempt :: nat
  calls :: "call list"

definition mounted :: "string option \<Rightarrow> controller" where
  "mounted el =
     \<lparr>element = el, sceneRef = None, initError = None, hasAttemptedRef = False,
      initializationKeyRef = [], isInitializingRef = False, prevValidationError = None,
      rendered = None, pending = [], nextAttempt = 0, calls = []\<rparr>"

definition validationError :: "props \<Rightarrow> string option" where
  "validationError p = validateParameters (scale p) (fps p)"

text \<open>The key built at lines 181 and 324.\<close>

definition configKey :: "props \<Rightarrow> string" where
  "configKey p =
     orEmpty (projectId p) @ ''-'' @ orEmpty (jsonFilePath p) @ ''-''
     @ numberToString (scale p) @ ''-'' @ numberToString (dpi p) @ ''-''
     @ numberToString (fps p) @ ''-''
     @ (if production p = Some True then ''prod'' else ''dev'')"

text \<open>The delay of the timer the call of \<open>addScene\<close> is raced against, in milliseconds.\<close>

definition timeoutMs :: nat where
  "timeoutMs = 15000"

text \<open>An optional callback is called when it is given, as in \<open>onLoad?.()\<close>.\<close>

definition callOpt :: "nat option \<Rightarrow> (nat \<Rightarrow> call) \<Rightarrow> call list" where
  "callOpt cb f = (case cb of None \<Rightarrow> [] | Some c \<Rightarrow> [f c])"

text \<open>
  Lines 163 to 169: the handle is destroyed and dropped when it has a \<open>destroy\<close> method;
  the initializing flag is cleared in every case.
\<close>

definition destroyScene :: "controller \<Rightarrow> controller" where
  "destroyScene s =
     (case sceneRef s of
        Some sc \<Rightarrow>
          if hasDestroy sc
          then s\<lparr>sceneRef := None, isInitializingRef := False,
                 calls := calls s @ [Destroy sc]\<rparr>
          else s\<lparr>isInitializingRef := False\<rparr>
      | None \<Rightarrow> s\<lparr>isInitializingRef := False\<rparr>)"

text \<open>
  The outer catch block: \<open>thrown\<close> is the message of the caught \<open>Error\<close>, \<open>None\<close> when
  the caught value is not an \<open>Error\<close>.
\<close>

definition catchError :: "nat option \<Rightarrow> string option \<Rightarrow> controller \<Rightarrow> controller" where
  "catchError cb thrown s =
     (let sanitizedMessage =
            sanitize (case thrown of Some m \<Rightarrow> m | None \<Rightarrow> ''Unknown error'')
      in s\<lparr>initError := Some sanitizedMessage, isInitializingRef := False,
            calls := calls s @ callOpt cb (\<lambda>c. OnError c sanitizedMessage)\<rparr>)"

text \<open>
  \<open>initializeScene\<close> up to its \<open>await\<close>, in the order of the source. Lines 191 to 197:
  the key and the two flags are written, then \<open>destroyScene\<close> runs.
\<close>

definition beginAttempt :: "props \<Rightarrow> controller \<Rightarrow> controller" where
  "beginAttempt p s =
     destroyScene (s\<lparr>initializationKeyRef := configKey p, hasAttemptedRef := True,
                     isInitializingRef := True\<rparr>)"

text \<open>Lines 204 to 215: the configuration, before a source is attached.\<close>

definition baseConfig :: "props \<Rightarrow> string \<Rightarrow> sceneConfig" where
  "baseConfig p newId =
     \<lparr>elementId = newId, cfg_scale = scale p, cfg_dpi = dpi p, cfg_fps = fps p,
      cfg_lazyLoad = lazyLoad p, cfg_altText = altText p, cfg_ariaLabel = ariaLabel p,
      cfg_production = production p, filePath = None, cfg_projectId = None\<rparr>"

text \<open>Lines 222 to 229: the source; \<open>None\<close> is the throw of line 228.\<close>

definition addProjectSource :: "props \<Rightarrow> sceneConfig \<Rightarrow> sceneConfig option" where
  "addProjectSource p cfg =
     (if truthy (jsonFilePath p) then Some (cfg\<lparr>filePath := jsonFilePath p\<rparr>)
      else if truthy (projectId p) then Some (cfg\<lparr>cfg_projectId := projectId p\<rparr>)
      else None)"

text \<open>
  Lines 233 to 251: the timer is set, \<open>addScene\<close> is called, and the attempt is
  suspended at the \<open>await\<close> with the callbacks of this render.
\<close>

definition raceAddScene :: "props \<Rightarrow> sceneConfig \<Rightarrow> controller \<Rightarrow> controller" where
  "raceAddScene p cfg s =
     s\<lparr>pending := pending s @
          [\<lparr>attemptId = nextAttempt s, att_onLoad = onLoad p, att_onError = onError p\<rparr>],
       nextAttempt := Suc (nextAttempt s),
       calls := calls s @ [SetTimeout (nextAttempt s) timeoutMs, AddScene cfg]\<rparr>"

text \<open>
  The \<open>try\<close> block up to the \<open>await\<close>, for a container whose id attribute is \<open>elId\<close>;
  a throw before the \<open>await\<close> runs the catch block at once.
\<close>

definition tryInitialize :: "props \<Rightarrow> env \<Rightarrow> string \<Rightarrow> controller \<Rightarrow> controller" where
  "tryInitialize p ev elId s =
     (let s1 = beginAttempt p s in
      if \<not> engineAvailable ev
      then catchError (onError p) (Some ''UnicornStudio.addScene not found'') s1
      else
        let newId = (if elId \<noteq> [] then elId else ''unicorn-'' @ randomId ev);
            s2 = s1\<lparr>element := Some newId\<rparr>
        in (case addProjectSource p (baseConfig p newId) of
              Some cfg \<Rightarrow> raceAddScene p cfg s2
            | None \<Rightarrow>
                catchError (onError p)
                  (Some ''No project ID or JSON file path provided'') s2))"

text \<open>Lines 171 to 189: the three guards, then the attempt.\<close>

definition initializeScene :: "props \<Rightarrow> env \<Rightarrow> controller \<Rightarrow> controller" where
  "initializeScene p ev s =
     (case element s of
        None \<Rightarrow> s
      | Some elId \<Rightarrow>
        if \<not> isScriptLoaded p \<or> truthy (validationError p) then s
        else if isInitializingRef s
          then s\<lparr>calls := calls s @ [ConsoleLog ''Already initializing, skipping...'']\<rparr>
        else if initializationKeyRef s = configKey p \<and> sceneRef s \<noteq> None
          then s\<lparr>calls := calls s @
                 [ConsoleLog ''Scene already initialized with this configuration, skipping...'']\<rparr>
        else tryInitialize p ev elId s)"

text \<open>
  How a suspended attempt can settle: the engine's promise resolves (with a handle or a
  falsy value), it rejects (with an \<open>Error\<close> message, or with something that is no
  \<open>Error\<close>), or the timer rejects first.
\<close>

datatype outcome = Resolved "scene option" | Rejected "string option" | TimedOut

text \<open>
  The continuation after the \<open>await\<close>. \<open>Promise.race\<close> settles once: an outcome for an
  attempt that is no longer suspended reaches no code of the hook.
\<close>

definition settle :: "nat \<Rightarrow> outcome \<Rightarrow> controller \<Rightarrow> controller" where
  "settle i out s =
     (case find (\<lambda>a. attemptId a = i) (pending s) of
        None \<Rightarrow> s
      | Some a \<Rightarrow>
        let s1 = s\<lparr>pending := filter (\<lambda>a. attemptId a \<noteq> i) (pending s),
                   calls := calls s @ [ClearTimeout i]\<rparr>
        in (case out of
              Resolved (Some sc) \<Rightarrow>
                s1\<lparr>sceneRef := Some sc, hasAttemptedRef := False, initError := None,
                   isInitializingRef := False,
                   calls := calls s1 @ callOpt (att_onLoad a) OnLoad\<rparr>
            | Resolved None \<Rightarrow>
                catchError (att_onError a) (Some ''Failed to initialize scene'')
                  (s1\<lparr>isInitializingRef := False,
                      calls := calls s1 @ [ClearTimeout i]\<rparr>)
            | Rejected thrown \<Rightarrow> catchError (att_onError a) thrown s1
            | TimedOut \<Rightarrow>
                catchError (att_onError a) (Some ''Scene initialization timeout'') s1))"

subsection \<open>The effects of the hook, and a commit\<close>

definition validationEffect :: "props \<Rightarrow> controller \<Rightarrow> controller" where
  "validationEffect p s =
     (if validationError p \<noteq> prevValidationError s then
        let s1 = s\<lparr>prevValidationError := validationError p\<rparr> in
        if truthy (validationError p)
        then s1\<lparr>initError := validationError p,
                calls := calls s1 @
                  callOpt (onError p) (\<lambda>c. OnError c (orEmpty (validationError p)))\<rparr>
        else s1\<lparr>initError := None\<rparr>
      else s)"

definition initEffect :: "props \<Rightarrow> env \<Rightarrow> controller \<Rightarrow> controller" where
  "initEffect p ev s = (if isScriptLoaded p then initializeScene p ev s else s)"

definition resetEffect :: "props \<Rightarrow> controller \<Rightarrow> controller" where
  "resetEffect p s =
     (let newKey = configKey p in
      if initializationKeyRef s \<noteq> newKey
      then s\<lparr>hasAttemptedRef := False, initError := None, isInitializingRef := False,
             initializationKeyRef := []\<rparr>
      else s)"

definition pausedEffect :: "props \<Rightarrow> controller \<Rightarrow> controller" where
  "pausedEffect p s =
     (case sceneRef s of
        None \<Rightarrow> s
      | Some sc \<Rightarrow>
        (case paused p of
           None \<Rightarrow> s
         | Some b \<Rightarrow> s\<lparr>sceneRef := Some (sc\<lparr>paused_prop := Some b\<rparr>)\<rparr>))"

text \<open>
  Dependency lists are compared entry by entry with \<open>Object.is\<close>; on the numbers of
  this model that is \<open>sameValueZero\<close>. \<open>keyDepsChanged\<close> is the list of the reset effect,
  \<open>initializeSceneChanged\<close> the list of the \<open>useCallback\<close> around \<open>initializeScene\<close>
  (\<open>elementRef\<close> and \<open>destroyScene\<close> never change).
\<close>

definition keyDepsChanged :: "props \<Rightarrow> props \<Rightarrow> bool" where
  "keyDepsChanged old new =
     (projectId old \<noteq> projectId new \<or> jsonFilePath old \<noteq> jsonFilePath new
      \<or> \<not> sameValueZero (scale old) (scale new) \<or> \<not> sameValueZero (dpi old) (dpi new)
      \<or> \<not> sameValueZero (fps old) (fps new) \<or> production old \<noteq> production new)"

definition initializeSceneChanged :: "props \<Rightarrow> props \<Rightarrow> bool" where
  "initializeSceneChanged old new =
     (isScriptLoaded old \<noteq> isScriptLoaded new \<or> keyDepsChanged old new
      \<or> lazyLoad old \<noteq> lazyLoad new \<or> altText old \<noteq> altText new
      \<or> ariaLabel old \<noteq> ariaLabel new \<or> onLoad old \<noteq> onLoad new
      \<or> onError old \<noteq> onError new \<or> validationError old \<noteq> validationError new)"

text \<open>
  A commit of the component with props \<open>p\<close>: the effects run in the order the hook
  declares them, each one only when an entry of its dependency list changed since the
  last commit (all of them on the first commit).
\<close>

definition commit :: "props \<Rightarrow> env \<Rightarrow> controller \<Rightarrow> controller" where
  "commit p ev s =
     (let ran = (\<lambda>changed. case rendered s of None \<Rightarrow> True | Some old \<Rightarrow> changed old);
          s1 = (if ran (\<lambda>old. validationError old \<noteq> validationError p
                              \<or> onError old \<noteq> onError p)
                then validationEffect p s else s);
          s2 = (if ran (\<lambda>old. initializeSceneChanged old p) then initEffect p ev s1 else s1);
          s3 = (if ran (\<lambda>old. keyDepsChanged old p) then resetEffect p s2 else s2);
          s4 = (if ran (\<lambda>old. paused old \<noteq> paused p) then pausedEffect p s3 else s3)
      in s4\<lparr>rendered := Some p\<rparr>)"

text \<open>Unmounting runs the cleanup of the third effect, which is \<open>destroyScene\<close>.\<close>

datatype event = Commit props env | Settle nat outcome | Unmount

fun step :: "controller \<Rightarrow> event \<Rightarrow> controller" where
  "step s (Commit p ev) = commit p ev s"
| "step s (Settle i out) = settle i out s"
| "step s Unmount = destroyScene s"

definition run :: "controller \<Rightarrow> event list \<Rightarrow> controller" where
  "run s es = foldl step s es"

text \<open>The configurations handed to \<open>addScene\<close> so far, in order.\<close>

fun addSceneOf :: "call \<Rightarrow> sceneConfig list" where
  "addSceneOf (AddScene cfg) = [cfg]"
| "addSceneOf _ = []"

definition addSceneCalls :: "controller \<Rightarrow> sceneConfig list" where
  "addSceneCalls s = concat (map addSceneOf (calls s))"

section \<open>Script loader (useUnicornStudioScript, the React hooks module)\<close>

text \<open>
  A listener on a script element belongs to a hook instance: \<open>handleScriptLoad\<close>,
  \<open>handleScriptError\<close>, or the arrow function of line 76 that marks the element loaded
  and then calls \<open>handleScriptLoad\<close>.
\<close>

datatype listener =
    HandleScriptLoad nat
  | HandleScriptError nat
  | MarkLoadedThenHandleScriptLoad nat

record scriptElement =
  src :: string
  dataLoaded :: bool
  loadListeners :: "listener list"
  errorListeners :: "listener list"

record hookState =
  isLoaded :: bool
  error :: "string option"

text \<open>
  The page: its script elements in document order, the state of every hook instance,
  and the \<open>src\<close> of each element the loader handed to \<open>appendChild\<close>. An element is
  addressed by its position; the loader never removes one.
\<close>

record page =
  scripts :: "scriptElement list"
  hooks :: "nat \<Rightarrow> hookState"
  inserted :: "string list"

text \<open>
  The effect looks the element up with the selector text \<open>script[src="URL"]\<close>, the URL
  pasted between the quotes as it is (lines 52 to 54). Between the quotes the selector
  is a CSS string: a backslash starts an escape, a double quote ends the string, a line
  break breaks it. \<open>selectorValue url\<close> is the attribute value such a selector asks for.
  It is given for the URLs without double quote, line break and NUL in which every
  backslash stands before a character that the escape turns into itself (any character
  but a hexadecimal digit or a line break, and not the end of the URL): the backslash is
  dropped and the character kept. For every other URL it is \<open>None\<close>: what those
  selectors do (hexadecimal escapes, a string that ends early, a selector that makes
  \<open>querySelector\<close> throw) is outside this model, and nothing is stated about them.
\<close>

definition isHexDigit :: "char \<Rightarrow> bool" where
  "isHexDigit c = (c \<in> set ''0123456789abcdefABCDEF'')"

definition isLineBreak :: "char \<Rightarrow> bool" where
  "isLineBreak c = (c = CHR 0x0A \<or> c = CHR 0x0C \<or> c = CHR 0x0D)"

definition endsString :: "char \<Rightarrow> bool" where
  "endsString c = (c = CHR 0x22 \<or> isLineBreak c \<or> c = CHR 0x00)"

fun selectorValue :: "string \<Rightarrow> string option" where
  "selectorValue [] = Some []"
| "selectorValue [c] = (if c = CHR 0x5C \<or> endsString c then None else Some [c])"
| "selectorValue (c # d # cs) =
     (if endsString c then None
      else if c = CHR 0x5C then
        (if isHexDigit d \<or> isLineBreak d \<or> d = CHR 0x00 then None
         else map_option ((#) d) (selectorValue cs))
      else map_option ((#) c) (selectorValue (d # cs)))"

fun firstIndex :: "('a \<Rightarrow> bool) \<Rightarrow> 'a list \<Rightarrow> nat option" where
  "firstIndex P [] = None"
| "firstIndex P (x # xs) = (if P x then Some 0 else map_option Suc (firstIndex P xs))"

text \<open>The first script element whose \<open>src\<close> attribute is \<open>v\<close>, by position.\<close>

definition querySelector :: "string \<Rightarrow> page \<Rightarrow> nat option" where
  "querySelector v pg = firstIndex (\<lambda>e. src e = v) (scripts pg)"

definition updAt :: "nat \<Rightarrow> ('a \<Rightarrow> 'a) \<Rightarrow> 'a list \<Rightarrow> 'a list" where
  "updAt k f es = (if k < length es then es[k := f (es ! k)] else es)"

text \<open>\<open>addEventListener\<close> ignores a listener that is registered already.\<close>

definition addListener :: "listener \<Rightarrow> listener list \<Rightarrow> listener list" where
  "addListener l ls = (if l \<in> set ls then ls else ls @ [l])"

definition handleScriptLoad :: "nat \<Rightarrow> page \<Rightarrow> page" where
  "handleScriptLoad h pg = pg\<lparr>hooks := (hooks pg)(h := (hooks pg h)\<lparr>isLoaded := True\<rparr>)\<rparr>"

definition handleScriptError :: "nat \<Rightarrow> page \<Rightarrow> page" where
  "handleScriptError h pg =
     pg\<lparr>hooks := (hooks pg)(h := (hooks pg h)
           \<lparr>error := Some ''Failed to load UnicornStudio script''\<rparr>)\<rparr>"

text \<open>
  The body of the effect, for hook instance \<open>h\<close> and its \<open>scriptUrl\<close> (lines 50 to 82);
  \<open>None\<close> for a URL whose selector is outside the model.
\<close>

definition scriptEffect :: "nat \<Rightarrow> string \<Rightarrow> page \<Rightarrow> page option" where
  "scriptEffect h scriptUrl pg =
     (case selectorValue scriptUrl of
        None \<Rightarrow> None
      | Some v \<Rightarrow>
        Some (case querySelector v pg of
                Some k \<Rightarrow>
                  if dataLoaded (scripts pg ! k) then handleScriptLoad h pg
                  else pg\<lparr>scripts := updAt k
                         (\<lambda>e. e\<lparr>loadListeners :=
                                  addListener (HandleScriptLoad h) (loadListeners e),
                                errorListeners :=
                                  addListener (HandleScriptError h) (errorListeners e)\<rparr>)
                         (scripts pg)\<rparr>
              | None \<Rightarrow>
                  pg\<lparr>scripts := scripts pg @
                        [\<lparr>src = scriptUrl, dataLoaded = False,
                          loadListeners = [MarkLoadedThenHandleScriptLoad h],
                          errorListeners = [HandleScriptError h]\<rparr>],
                     inserted := inserted pg @ [scriptUrl]\<rparr>))"

text \<open>
  The cleanup the effect returns, for the element \<open>k\<close> the effect found or created: it
  takes the two handlers of \<open>h\<close> off the element and leaves the element in the document.
\<close>

definition scriptCleanup :: "nat \<Rightarrow> nat \<Rightarrow> page \<Rightarrow> page" where
  "scriptCleanup h k pg =
     pg\<lparr>scripts := updAt k
           (\<lambda>e. e\<lparr>loadListeners := removeAll (HandleScriptLoad h) (loadListeners e),
                  errorListeners := removeAll (HandleScriptError h) (errorListeners e)\<rparr>)
           (scripts pg)\<rparr>"

text \<open>A listener of element \<open>k\<close> runs.\<close>

fun runListener :: "nat \<Rightarrow> page \<Rightarrow> listener \<Rightarrow> page" where
  "runListener k pg (HandleScriptLoad h) = handleScriptLoad h pg"
| "runListener k pg (HandleScriptError h) = handleScriptError h pg"
| "runListener k pg (MarkLoadedThenHandleScriptLoad h) =
     handleScriptLoad h (pg\<lparr>scripts := updAt k (\<lambda>e. e\<lparr>dataLoaded := True\<rparr>) (scripts pg)\<rparr>)"

text \<open>The browser fires \<open>load\<close> or \<open>error\<close> on element \<open>k\<close>.\<close>

definition fireLoad :: "nat \<Rightarrow> page \<Rightarrow> page" where
  "fireLoad k pg =
     (if k < length (scripts pg)
      then foldl (runListener k) pg (loadListeners (scripts pg ! k)) else pg)"

definition fireError :: "nat \<Rightarrow> page \<Rightarrow> page" where
  "fireError k pg =
     (if k < length (scripts pg)
      then foldl (runListener k) pg (errorListeners (scripts pg ! k)) else pg)"

datatype request = Effect nat string | Cleanup nat nat | Load nat | Error nat

fun serve :: "page \<Rightarrow> request \<Rightarrow> page option" where
  "serve pg (Effect h url) = scriptEffect h url pg"
| "serve pg (Cleanup h k) = Some (scriptCleanup h k pg)"
| "serve pg (Load k) = Some (fireLoad k pg)"
| "serve pg (Error k) = Some (fireError k pg)"

fun serveAll :: "page \<Rightarrow> request list \<Rightarrow> page option" where
  "serveAll pg [] = Some pg"
| "serveAll pg (r # rs) = (case serve pg r of None \<Rightarrow> None | Some pg' \<Rightarrow> serveAll pg' rs)"

section \<open>Notions used to state the properties\<close>

text \<open>The valid domains in the words of the specification, on mathematical values.\<close>

definition scaleInDomain :: "number \<Rightarrow> bool" where
  "scaleInDomain x = (case value_of x of None \<Rightarrow> False | Some r \<Rightarrow> 1 / 4 \<le> r \<and> r \<le> 1)"

definition fpsInDomain :: "number \<Rightarrow> bool" where
  "fpsInDomain x =
     (case value_of x of None \<Rightarrow> False | Some r \<Rightarrow> r = 15 \<or> r = 24 \<or> r = 30 \<or> r = 60 \<or> r = 120)"

text \<open>A request passes the entry, concurrency and idempotence guards of \<open>initializeScene\<close>.\<close>

definition passesGuards :: "props \<Rightarrow> controller \<Rightarrow> bool" where
  "passesGuards p s =
     (element s \<noteq> None \<and> isScriptLoaded p \<and> \<not> truthy (validationError p)
      \<and> \<not> isInitializingRef s
      \<and> \<not> (initializationKeyRef s = configKey p \<and> sceneRef s \<noteq> None))"

text \<open>The calls that reach the engine: \<open>addScene\<close> and \<open>destroy\<close>.\<close>

fun isEngineCall :: "call \<Rightarrow> bool" where
  "isEngineCall (AddScene cfg) = True"
| "isEngineCall (Destroy sc) = True"
| "isEngineCall _ = False"

definition engineCalls :: "controller \<Rightarrow> call list" where
  "engineCalls s = filter isEngineCall (calls s)"

text \<open>Attempt identifiers are handed out once: the suspended ones are distinct and used.\<close>

definition attemptsFresh :: "controller \<Rightarrow> bool" where
  "attemptsFresh s =
     (distinct (map attemptId (pending s))
      \<and> list_all (\<lambda>a. attemptId a < nextAttempt s) (pending s))"

fun isTimerOf :: "nat \<Rightarrow> call \<Rightarrow> bool" where
  "isTimerOf ms (SetTimeout i d) = (d = ms)"
| "isTimerOf ms _ = True"

text \<open>
  A URL without the characters that mean something in a CSS string, and a request whose
  URL (if it has one) is such.
\<close>

definition cssPlain :: "string \<Rightarrow> bool" where
  "cssPlain url = list_all (\<lambda>c. c \<noteq> CHR 0x5C \<and> \<not> endsString c) url"

fun plainRequest :: "request \<Rightarrow> bool" where
  "plainRequest (Effect h url) = cssPlain url"
| "plainRequest _ = True"

text \<open>
  The configuration of the example in the doc comment of \<open>useUnicornScene\<close>, with the
  script loaded, and a container whose id is \<open>stage\<close>.
\<close>

definition sampleProps :: props where
  "sampleProps =
     \<lparr>projectId = Some ''my-project-id'', jsonFilePath = None, production = None,
      scale = Dec 1 0, dpi = Dec 15 1, fps = Dec 60 0, lazyLoad = True,
      altText = ''My Scene'', ariaLabel = ''Interactive animation'',
      isScriptLoaded = True, paused = None, onLoad = Some 0, onError = Some 1\<rparr>"

definition sampleEnv :: env where
  "sampleEnv = \<lparr>engineAvailable = True, randomId = ''k3j2h1g0f''\<rparr>"

definition stage :: controller where
  "stage = mounted (Some ''stage'')"

text \<open>
  The sample configuration with other accessibility text: the fingerprint fields are the
  same. And the sample configuration for another project.
\<close>

definition retitledProps :: props where
  "retitledProps = sampleProps\<lparr>altText := ''Other'', ariaLabel := ''Other label''\<rparr>"

definition otherProject :: props where
  "otherProject = sampleProps\<lparr>projectId := Some ''other-project''\<rparr>"

text \<open>The sample is committed and the engine rejects: one failed attempt.\<close>

definition failedOnce :: controller where
  "failedOnce = run stage [Commit sampleProps sampleEnv, Settle 0 (Rejected (Some ''boom''))]"

text \<open>The sample is committed and the engine resolves with a handle: a live scene.\<close>

definition liveScene :: controller where
  "liveScene =
     run stage [Commit sampleProps sampleEnv,
                Settle 0 (Resolved (Some \<lparr>sceneId = 7, hasDestroy = True, paused_prop = None\<rparr>))]"

definition emptyPage :: page where
  "emptyPage = \<lparr>scripts = [], hooks = (\<lambda>h. \<lparr>isLoaded = False, error = None\<rparr>), inserted = []\<rparr>"

text \<open>A script URL with a backslash in its path, and one without.\<close>

definition backslashUrl :: string where
  "backslashUrl = ''/sdk'' @ [CHR 0x5C] @ ''unicorn.js''"

definition plainUrl :: string where
  "plainUrl = ''/sdk/unicorn.js''"

section \<open>Strings and numbers: auxiliary facts\<close>

lemma str_includes_sublist: "str_includes s t = sublist t s"
  by (induction s) (auto simp: sublist_Cons_right)

lemma str_includes_mid: "str_includes (a @ t @ b) t"
  by (simp add: str_includes_sublist)

lemma mentions_includes: "mentions msg w = str_includes msg w"
  by (simp add: mentions_def str_includes_sublist sublist_def)

lemma validateScale_domain: "validateScale x = scaleInDomain x"
proof (cases x)
  case (Dec m e)
  have a: "(25 * 10 ^ e \<le> m * 10 ^ 2) = (1 / 4 \<le> real_of_int m / 10 ^ e)"
  proof -
    have "(1 / 4 \<le> real_of_int m / 10 ^ e) = (10 ^ e \<le> 4 * real_of_int m)"
      by (simp add: pos_le_divide_eq mult.commute)
    also have "\<dots> = (25 * 10 ^ e \<le> 100 * real_of_int m)" by simp
    also have "\<dots> = (real_of_int (25 * 10 ^ e) \<le> real_of_int (m * 100))" by simp
    also have "\<dots> = (25 * 10 ^ e \<le> m * 100)" by (simp only: of_int_le_iff)
    finally show ?thesis by simp
  qed
  have b: "(m * 10 ^ 1 \<le> 10 * 10 ^ e) = (real_of_int m / 10 ^ e \<le> 1)"
  proof -
    have "(real_of_int m / 10 ^ e \<le> 1) = (real_of_int m \<le> 10 ^ e)"
      by (simp add: pos_divide_le_eq)
    also have "\<dots> = (real_of_int m \<le> real_of_int (10 ^ e))" by simp
    also have "\<dots> = (m \<le> 10 ^ e)" by (simp only: of_int_le_iff)
    finally show ?thesis by simp
  qed
  show ?thesis using a b by (simp add: Dec validateScale_def scaleInDomain_def)
qed (simp_all add: validateScale_def scaleInDomain_def)

lemma same_as_int: "sameValueZero (Dec m e) (Dec k 0) = (real_of_int m / 10 ^ e = real_of_int k)"
proof -
  have "(real_of_int m / 10 ^ e = real_of_int k) = (real_of_int m = real_of_int k * 10 ^ e)"
    by (simp add: divide_eq_eq)
  also have "\<dots> = (real_of_int m = real_of_int (k * 10 ^ e))" by simp
  also have "\<dots> = (m = k * 10 ^ e)" by (simp only: of_int_eq_iff)
  finally show ?thesis by simp
qed

lemma validateFPS_domain: "validateFPS x = fpsInDomain x"
proof (cases x)
  case (Dec m e)
  show ?thesis using same_as_int[of m e 15] same_as_int[of m e 24] same_as_int[of m e 30]
     same_as_int[of m e 60] same_as_int[of m e 120]
    by (simp add: Dec validateFPS_def fpsInDomain_def VALID_FPS_def)
qed (simp_all add: validateFPS_def fpsInDomain_def VALID_FPS_def)

lemma sameValueZero_refl [simp]: "sameValueZero x x"
  by (cases x) simp_all

section \<open>Parameter validation\<close>

text \<open>
  C8. \<open>validateParameters scale fps\<close> returns nothing exactly when the scale lies in
  \<open>[0.25, 1.0]\<close> and the fps is one of 15, 24, 30, 60, 120. Otherwise the scale is
  checked before the fps, and the message names the offending value and its valid
  domain: \<open>validateParameters(0.1, 60)\<close> mentions \<open>0.1\<close> and \<open>0.25 and 1.0\<close>,
  \<open>validateParameters(1, 45)\<close> mentions \<open>45\<close> and \<open>15, 24, 30, 60, 120\<close>, and
  \<open>validateParameters(1, 60)\<close> returns nothing. In the model \<open>0.1\<close> is \<open>Dec 1 1\<close>,
  \<open>1\<close> is \<open>Dec 1 0\<close>, \<open>45\<close> is \<open>Dec 45 0\<close> and \<open>60\<close> is \<open>Dec 60 0\<close>.
\<close>

theorem validateParameters_checks:
  "(validateParameters x f = None) = (scaleInDomain x \<and> fpsInDomain f)
   \<and> (\<not> scaleInDomain x \<longrightarrow>
        validateParameters x f =
          Some (''Invalid scale: '' @ numberToString x @ ''. Scale must be between 0.25 and 1.0''))
   \<and> (scaleInDomain x \<and> \<not> fpsInDomain f \<longrightarrow>
        validateParameters x f =
          Some (''Invalid fps: '' @ numberToString f @ ''. FPS must be one of: 15, 24, 30, 60, 120''))
   \<and> (\<forall>msg. validateParameters x f = Some msg \<longrightarrow>
        (if scaleInDomain x
         then str_includes msg (numberToString f) \<and> str_includes msg ''15, 24, 30, 60, 120''
         else str_includes msg (numberToString x) \<and> str_includes msg ''0.25 and 1.0''))
   \<and> validateParameters (Dec 1 1) (Dec 60 0) =
        Some ''Invalid scale: 0.1. Scale must be between 0.25 and 1.0''
   \<and> validateParameters (Dec 1 0) (Dec 45 0) =
        Some ''Invalid fps: 45. FPS must be one of: 15, 24, 30, 60, 120''
   \<and> validateParameters (Dec 1 0) (Dec 60 0) = None
   \<and> numberToString (Dec 1 1) = ''0.1'' \<and> numberToString (Dec 45 0) = ''45''"
proof -
  have n1: "numberToString (Dec 1 1) = ''0.1''"
    by (simp add: finiteToString_def showNat.simps stripZeros_def digitChar_def Let_def)
  have n2: "numberToString (Dec 45 0) = ''45''"
    by (simp add: finiteToString_def showNat.simps stripZeros_def digitChar_def Let_def)
  have inc1: "str_includes
      (''Invalid scale: '' @ numberToString x @ ''. Scale must be between 0.25 and 1.0'')
      (numberToString x)"
    by (rule str_includes_mid)
  have inc2: "str_includes
      (''Invalid scale: '' @ numberToString x @ ''. Scale must be between 0.25 and 1.0'')
      ''0.25 and 1.0''"
    using str_includes_mid
      [of "''Invalid scale: '' @ numberToString x @ ''. Scale must be between ''"
          "''0.25 and 1.0''" "[]"]
    by simp
  have inc3: "str_includes
      (''Invalid fps: '' @ numberToString f @ ''. FPS must be one of: 15, 24, 30, 60, 120'')
      (numberToString f)"
    by (rule str_includes_mid)
  have inc4: "str_includes
      (''Invalid fps: '' @ numberToString f @ ''. FPS must be one of: 15, 24, 30, 60, 120'')
      ''15, 24, 30, 60, 120''"
    using str_includes_mid
      [of "''Invalid fps: '' @ numberToString f @ ''. FPS must be one of: ''"
          "''15, 24, 30, 60, 120''" "[]"]
    by simp
  have e1: "validateParameters (Dec 1 1) (Dec 60 0) =
        Some ''Invalid scale: 0.1. Scale must be between 0.25 and 1.0''"
    using n1 by (simp add: validateParameters_def validateScale_def del: numberToString.simps)
  have e2: "validateParameters (Dec 1 0) (Dec 45 0) =
        Some ''Invalid fps: 45. FPS must be one of: 15, 24, 30, 60, 120''"
    by (simp add: validateParameters_def validateScale_def validateFPS_def VALID_FPS_def n2
          del: numberToString.simps)
  have e3: "validateParameters (Dec 1 0) (Dec 60 0) = None"
    by (simp add: validateParameters_def validateScale_def validateFPS_def VALID_FPS_def)
  show ?thesis
    using inc1 inc2 inc3 inc4 e1 e2 e3 n1 n2
    by (simp add: validateParameters_def validateScale_domain validateFPS_domain)
qed

theorem validateParameters_checks_witness:
  "\<not> scaleInDomain (Dec 1 1)
   \<and> validateParameters (Dec 1 1) (Dec 45 0) =
       Some (''Invalid scale: '' @ numberToString (Dec 1 1)
             @ ''. Scale must be between 0.25 and 1.0'')
   \<and> scaleInDomain (Dec 5 1) \<and> \<not> fpsInDomain (Dec 45 0)
   \<and> validateParameters (Dec 5 1) (Dec 45 0) =
       Some (''Invalid fps: '' @ numberToString (Dec 45 0)
             @ ''. FPS must be one of: 15, 24, 30, 60, 120'')
   \<and> str_includes (''Invalid fps: '' @ numberToString (Dec 45 0)
             @ ''. FPS must be one of: 15, 24, 30, 60, 120'') (numberToString (Dec 45 0))"
proof -
  have h1: "\<not> scaleInDomain (Dec 1 1)" by (simp add: scaleInDomain_def)
  have h2: "scaleInDomain (Dec 5 1)" by (simp add: scaleInDomain_def)
  have h3: "\<not> fpsInDomain (Dec 45 0)" by (simp add: fpsInDomain_def)
  from validateParameters_checks [of "Dec 1 1" "Dec 45 0"] h1
  have a: "validateParameters (Dec 1 1) (Dec 45 0) =
       Some (''Invalid scale: '' @ numberToString (Dec 1 1)
             @ ''. Scale must be between 0.25 and 1.0'')"
    by blast
  from validateParameters_checks [of "Dec 5 1" "Dec 45 0"] h2 h3
  have b: "validateParameters (Dec 5 1) (Dec 45 0) =
       Some (''Invalid fps: '' @ numberToString (Dec 45 0)
             @ ''. FPS must be one of: 15, 24, 30, 60, 120'')"
    by blast
  from validateParameters_checks [of "Dec 5 1" "Dec 45 0"] h2 b
  have c: "str_includes (''Invalid fps: '' @ numberToString (Dec 45 0)
             @ ''. FPS must be one of: 15, 24, 30, 60, 120'') (numberToString (Dec 45 0))"
    by (metis (full_types))
  from h1 a h2 h3 b c show ?thesis by blast
qed

section \<open>Error sanitizer\<close>

lemma sanitize_cases:
  "sanitize msg =
     (if mentions msg ''404'' \<or> mentions msg ''Failed to fetch'' then ''Resource not found''
      else if mentions msg ''Network'' \<or> mentions msg ''network'' then ''Network error occurred''
      else if mentions msg ''timeout'' then ''Loading timeout''
      else msg)"
  by (simp only: sanitize_def mentions_includes)

lemma catchError_fields [simp]:
  "initError (catchError cb (Some msg) s) = Some (sanitize msg)"
  "initError (catchError cb None s) = Some (sanitize ''Unknown error'')"
  "calls (catchError cb (Some msg) s) = calls s @ callOpt cb (\<lambda>c. OnError c (sanitize msg))"
  "calls (catchError cb None s) = calls s @ callOpt cb (\<lambda>c. OnError c (sanitize ''Unknown error''))"
  "isInitializingRef (catchError cb thrown s) = False"
  "sceneRef (catchError cb thrown s) = sceneRef s"
  "pending (catchError cb thrown s) = pending s"
  "nextAttempt (catchError cb thrown s) = nextAttempt s"
  "initializationKeyRef (catchError cb thrown s) = initializationKeyRef s"
  "hasAttemptedRef (catchError cb thrown s) = hasAttemptedRef s"
  "element (catchError cb thrown s) = element s"
  "rendered (catchError cb thrown s) = rendered s"
  "prevValidationError (catchError cb thrown s) = prevValidationError s"
  by (simp_all add: catchError_def Let_def)

lemma sanitize_noSource:
  "sanitize ''No project ID or JSON file path provided'' = ''No project ID or JSON file path provided''"
  by (simp add: sanitize_def)

text \<open>
  C6. The sanitizer checks the categories in order and the first match wins: a message
  that mentions \<open>404\<close> or \<open>Failed to fetch\<close> becomes \<open>Resource not found\<close>; otherwise
  one that mentions \<open>Network\<close> or \<open>network\<close> becomes \<open>Network error occurred\<close>; otherwise
  one that mentions \<open>timeout\<close> becomes \<open>Loading timeout\<close>; otherwise the message is
  passed through unchanged. The catch block of \<open>initializeScene\<close> surfaces the sanitized
  message as the error state and hands it to \<open>onError\<close>.
\<close>

theorem sanitize_first_match:
  "(mentions msg ''404'' \<or> mentions msg ''Failed to fetch''
      \<longrightarrow> sanitize msg = ''Resource not found'')
   \<and> (\<not> mentions msg ''404'' \<and> \<not> mentions msg ''Failed to fetch''
       \<and> (mentions msg ''Network'' \<or> mentions msg ''network'')
      \<longrightarrow> sanitize msg = ''Network error occurred'')
   \<and> (\<not> mentions msg ''404'' \<and> \<not> mentions msg ''Failed to fetch''
       \<and> \<not> mentions msg ''Network'' \<and> \<not> mentions msg ''network''
       \<and> mentions msg ''timeout''
      \<longrightarrow> sanitize msg = ''Loading timeout'')
   \<and> (\<not> mentions msg ''404'' \<and> \<not> mentions msg ''Failed to fetch''
       \<and> \<not> mentions msg ''Network'' \<and> \<not> mentions msg ''network''
       \<and> \<not> mentions msg ''timeout''
      \<longrightarrow> sanitize msg = msg)
   \<and> initError (catchError cb (Some msg) s) = Some (sanitize msg)
   \<and> calls (catchError cb (Some msg) s) =
       calls s @ (case cb of None \<Rightarrow> [] | Some c \<Rightarrow> [OnError c (sanitize msg)])"
  using sanitize_cases [of msg]
  by (cases cb) (simp_all del: catchError_fields add: catchError_fields(1,3) callOpt_def)

theorem sanitize_first_match_witness:
  "mentions ''GET https://cdn.example/scene.json 404 (Not Found)'' ''404''
   \<and> sanitize ''GET https://cdn.example/scene.json 404 (Not Found)'' = ''Resource not found''
   \<and> mentions ''Network request failed'' ''Network''
   \<and> sanitize ''Network request failed'' = ''Network error occurred''
   \<and> mentions ''Scene initialization timeout'' ''timeout''
   \<and> sanitize ''Scene initialization timeout'' = ''Loading timeout''
   \<and> sanitize ''Failed to initialize scene'' = ''Failed to initialize scene''"
proof -
  have h1: "mentions ''GET https://cdn.example/scene.json 404 (Not Found)'' ''404''"
    by (simp add: mentions_includes)
  have h2: "\<not> mentions ''Network request failed'' ''404''
            \<and> \<not> mentions ''Network request failed'' ''Failed to fetch''
            \<and> mentions ''Network request failed'' ''Network''"
    by (simp add: mentions_includes)
  have h3: "\<not> mentions ''Scene initialization timeout'' ''404''
            \<and> \<not> mentions ''Scene initialization timeout'' ''Failed to fetch''
            \<and> \<not> mentions ''Scene initialization timeout'' ''Network''
            \<and> \<not> mentions ''Scene initialization timeout'' ''network''
            \<and> mentions ''Scene initialization timeout'' ''timeout''"
    by (simp add: mentions_includes)
  have h4: "\<not> mentions ''Failed to initialize scene'' ''404''
            \<and> \<not> mentions ''Failed to initialize scene'' ''Failed to fetch''
            \<and> \<not> mentions ''Failed to initialize scene'' ''Network''
            \<and> \<not> mentions ''Failed to initialize scene'' ''network''
            \<and> \<not> mentions ''Failed to initialize scene'' ''timeout''"
    by (simp add: mentions_includes)
  have a: "sanitize ''GET https://cdn.example/scene.json 404 (Not Found)'' = ''Resource not found''"
    using sanitize_first_match [of "''GET https://cdn.example/scene.json 404 (Not Found)''"] h1
    by blast
  have b: "sanitize ''Network request failed'' = ''Network error occurred''"
    using sanitize_first_match [of "''Network request failed''"] h2
    by blast
  have c: "sanitize ''Scene initialization timeout'' = ''Loading timeout''"
    using sanitize_first_match [of "''Scene initialization timeout''"] h3
    by blast
  have d: "sanitize ''Failed to initialize scene'' = ''Failed to initialize scene''"
    using sanitize_first_match [of "''Failed to initialize scene''"] h4
    by blast
  from h1 h2 h3 a b c d show ?thesis by simp
qed

section \<open>The pieces of initializeScene\<close>

lemma destroyScene_fields [simp]:
  "isInitializingRef (destroyScene s) = False"
  "pending (destroyScene s) = pending s"
  "nextAttempt (destroyScene s) = nextAttempt s"
  "initError (destroyScene s) = initError s"
  "initializationKeyRef (destroyScene s) = initializationKeyRef s"
  "hasAttemptedRef (destroyScene s) = hasAttemptedRef s"
  "element (destroyScene s) = element s"
  "rendered (destroyScene s) = rendered s"
  "prevValidationError (destroyScene s) = prevValidationError s"
  "sceneRef (destroyScene s) =
     (case sceneRef s of None \<Rightarrow> None | Some sc \<Rightarrow> if hasDestroy sc then None else Some sc)"
  "calls (destroyScene s) =
     calls s @ (case sceneRef s of None \<Rightarrow> []
                | Some sc \<Rightarrow> if hasDestroy sc then [Destroy sc] else [])"
  by (simp_all add: destroyScene_def split: option.splits)

lemma beginAttempt_fields [simp]:
  "isInitializingRef (beginAttempt p s) = False"
  "pending (beginAttempt p s) = pending s"
  "nextAttempt (beginAttempt p s) = nextAttempt s"
  "initError (beginAttempt p s) = initError s"
  "initializationKeyRef (beginAttempt p s) = configKey p"
  "hasAttemptedRef (beginAttempt p s) = True"
  "element (beginAttempt p s) = element s"
  "rendered (beginAttempt p s) = rendered s"
  "prevValidationError (beginAttempt p s) = prevValidationError s"
  "sceneRef (beginAttempt p s) =
     (case sceneRef s of None \<Rightarrow> None | Some sc \<Rightarrow> if hasDestroy sc then None else Some sc)"
  "calls (beginAttempt p s) =
     calls s @ (case sceneRef s of None \<Rightarrow> []
                | Some sc \<Rightarrow> if hasDestroy sc then [Destroy sc] else [])"
  by (simp_all add: beginAttempt_def)

lemma raceAddScene_fields [simp]:
  "isInitializingRef (raceAddScene p cfg s) = isInitializingRef s"
  "pending (raceAddScene p cfg s) =
     pending s @ [\<lparr>attemptId = nextAttempt s, att_onLoad = onLoad p, att_onError = onError p\<rparr>]"
  "nextAttempt (raceAddScene p cfg s) = Suc (nextAttempt s)"
  "initError (raceAddScene p cfg s) = initError s"
  "initializationKeyRef (raceAddScene p cfg s) = initializationKeyRef s"
  "hasAttemptedRef (raceAddScene p cfg s) = hasAttemptedRef s"
  "element (raceAddScene p cfg s) = element s"
  "rendered (raceAddScene p cfg s) = rendered s"
  "prevValidationError (raceAddScene p cfg s) = prevValidationError s"
  "sceneRef (raceAddScene p cfg s) = sceneRef s"
  "calls (raceAddScene p cfg s) = calls s @ [SetTimeout (nextAttempt s) timeoutMs, AddScene cfg]"
  by (simp_all add: raceAddScene_def)

text \<open>What the try block leaves behind, case by case.\<close>

lemma tryInitialize_noEngine:
  "\<not> engineAvailable ev \<Longrightarrow>
   tryInitialize p ev elId s =
     catchError (onError p) (Some ''UnicornStudio.addScene not found'') (beginAttempt p s)"
  by (simp add: tryInitialize_def)

lemma tryInitialize_noSource:
  "engineAvailable ev \<Longrightarrow> \<not> truthy (jsonFilePath p) \<Longrightarrow> \<not> truthy (projectId p) \<Longrightarrow>
   tryInitialize p ev elId s =
     catchError (onError p) (Some ''No project ID or JSON file path provided'')
       ((beginAttempt p s)\<lparr>element := Some (if elId \<noteq> [] then elId else ''unicorn-'' @ randomId ev)\<rparr>)"
  by (simp add: tryInitialize_def addProjectSource_def Let_def)

lemma tryInitialize_source:
  "engineAvailable ev \<Longrightarrow> truthy (jsonFilePath p) \<or> truthy (projectId p) \<Longrightarrow>
   tryInitialize p ev elId s =
     raceAddScene p (the (addProjectSource p
         (baseConfig p (if elId \<noteq> [] then elId else ''unicorn-'' @ randomId ev))))
       ((beginAttempt p s)\<lparr>element := Some (if elId \<noteq> [] then elId else ''unicorn-'' @ randomId ev)\<rparr>)"
  by (auto simp add: tryInitialize_def addProjectSource_def Let_def)

lemma initializeScene_passes:
  "passesGuards p s \<Longrightarrow> initializeScene p ev s = tryInitialize p ev (the (element s)) s"
  by (auto simp add: passesGuards_def initializeScene_def split: option.splits)

lemma initializeScene_blocked:
  "\<not> passesGuards p s \<Longrightarrow>
   initializeScene p ev s = s \<or> (\<exists>m. initializeScene p ev s = s\<lparr>calls := calls s @ [ConsoleLog m]\<rparr>)"
  by (auto simp add: passesGuards_def initializeScene_def split: option.splits)

lemma addSceneOf_destroy [simp]:
  "concat (map addSceneOf (case x of None \<Rightarrow> []
      | Some sc \<Rightarrow> if hasDestroy sc then [Destroy sc] else [])) = []"
  by (cases x) simp_all

lemma addSceneOf_callOpt [simp]:
  "concat (map addSceneOf (callOpt cb (\<lambda>c. OnError c m))) = []"
  "concat (map addSceneOf (callOpt cb OnLoad)) = []"
  by (cases cb; simp add: callOpt_def)+

lemma isEngineCall_callOpt [simp]:
  "filter isEngineCall (callOpt cb (\<lambda>c. OnError c m)) = []"
  "filter isEngineCall (callOpt cb OnLoad) = []"
  by (cases cb; simp add: callOpt_def)+

lemma initializeScene_calls_source:
  assumes "passesGuards p s" "engineAvailable ev" "truthy (jsonFilePath p) \<or> truthy (projectId p)"
  shows "addSceneCalls (initializeScene p ev s) =
           addSceneCalls s @ [the (addProjectSource p
              (baseConfig p (if the (element s) \<noteq> [] then the (element s)
                             else ''unicorn-'' @ randomId ev)))]"
    and "pending (initializeScene p ev s) =
           pending s @ [\<lparr>attemptId = nextAttempt s, att_onLoad = onLoad p, att_onError = onError p\<rparr>]"
    and "\<not> isInitializingRef (initializeScene p ev s)"
    and "initError (initializeScene p ev s) = initError s"
    and "initializationKeyRef (initializeScene p ev s) = configKey p"
    and "nextAttempt (initializeScene p ev s) = Suc (nextAttempt s)"
    and "sceneRef (initializeScene p ev s) =
          (case sceneRef s of None \<Rightarrow> None | Some sc \<Rightarrow> if hasDestroy sc then None else Some sc)"
    and "element (initializeScene p ev s) \<noteq> None"
  using assms
  by (simp_all add: initializeScene_passes tryInitialize_source addSceneCalls_def
        )

lemma initializeScene_calls_noSource:
  assumes "passesGuards p s" "engineAvailable ev" "\<not> truthy (jsonFilePath p)" "\<not> truthy (projectId p)"
  shows "addSceneCalls (initializeScene p ev s) = addSceneCalls s"
    and "pending (initializeScene p ev s) = pending s"
    and "initError (initializeScene p ev s) = Some ''No project ID or JSON file path provided''"
  using assms
  by (simp_all add: initializeScene_passes tryInitialize_noSource addSceneCalls_def
        sanitize_noSource)

lemma initializeScene_calls_noEngine:
  assumes "passesGuards p s" "\<not> engineAvailable ev"
  shows "addSceneCalls (initializeScene p ev s) = addSceneCalls s"
    and "pending (initializeScene p ev s) = pending s"
  using assms
  by (simp_all add: initializeScene_passes tryInitialize_noEngine addSceneCalls_def)

lemma initializeScene_calls_blocked:
  assumes "\<not> passesGuards p s"
  shows "addSceneCalls (initializeScene p ev s) = addSceneCalls s"
    and "pending (initializeScene p ev s) = pending s"
    and "sceneRef (initializeScene p ev s) = sceneRef s"
    and "initError (initializeScene p ev s) = initError s"
    and "initializationKeyRef (initializeScene p ev s) = initializationKeyRef s"
    and "nextAttempt (initializeScene p ev s) = nextAttempt s"
    and "engineCalls (initializeScene p ev s) = engineCalls s"
  using initializeScene_blocked [OF assms, of ev]
  by (auto simp add: addSceneCalls_def engineCalls_def)

lemma addProjectSource_file:
  "truthy (jsonFilePath p) \<Longrightarrow>
     addProjectSource p cfg = Some (cfg\<lparr>filePath := jsonFilePath p\<rparr>)"
  by (simp add: addProjectSource_def)

lemma addProjectSource_project:
  "\<not> truthy (jsonFilePath p) \<Longrightarrow> truthy (projectId p) \<Longrightarrow>
     addProjectSource p cfg = Some (cfg\<lparr>cfg_projectId := projectId p\<rparr>)"
  by (simp add: addProjectSource_def)

lemma truthy_Some: "truthy x \<Longrightarrow> x \<noteq> None"
  by (cases x) simp_all

lemma passes_again:
  assumes "passesGuards p s" "engineAvailable ev" "truthy (jsonFilePath p) \<or> truthy (projectId p)"
    and "sceneRef s = None"
  shows "passesGuards p (initializeScene p ev s)"
  using assms initializeScene_calls_source [OF assms(1-3)]
  by (simp add: passesGuards_def)

text \<open>Every call of \<open>initializeScene\<close> either leaves the attempts alone or suspends a new one.\<close>

lemma initializeScene_attempts:
  "(pending (initializeScene p ev s) = pending s
      \<and> nextAttempt (initializeScene p ev s) = nextAttempt s)
   \<or> (\<exists>a. attemptId a = nextAttempt s
          \<and> pending (initializeScene p ev s) = pending s @ [a]
          \<and> nextAttempt (initializeScene p ev s) = Suc (nextAttempt s))"
proof (cases "passesGuards p s")
  case False
  then show ?thesis by (simp add: initializeScene_calls_blocked)
next
  case True
  show ?thesis
  proof (cases "engineAvailable ev")
    case False
    with True show ?thesis
      by (simp add: initializeScene_passes tryInitialize_noEngine)
  next
    case e: True
    show ?thesis
    proof (cases "truthy (jsonFilePath p) \<or> truthy (projectId p)")
      case True
      with \<open>passesGuards p s\<close> e show ?thesis
        by (simp add: initializeScene_calls_source)
    next
      case False
      with \<open>passesGuards p s\<close> e show ?thesis
        by (simp add: initializeScene_passes tryInitialize_noSource)
    qed
  qed
qed

lemma initializeScene_calls_grow:
  "\<exists>cs. calls (initializeScene p ev s) = calls s @ cs \<and> list_all (isTimerOf timeoutMs) cs"
proof (cases "passesGuards p s")
  case False
  from initializeScene_blocked [OF this, of ev] show ?thesis by auto
next
  case True
  have d: "list_all (isTimerOf timeoutMs)
             (case sceneRef s of None \<Rightarrow> [] | Some sc \<Rightarrow> if hasDestroy sc then [Destroy sc] else [])"
    by (simp split: option.splits)
  have o: "\<And>m. list_all (isTimerOf timeoutMs) (callOpt (onError p) (\<lambda>c. OnError c m))"
    by (cases "onError p") (simp_all add: callOpt_def)
  show ?thesis
  proof (cases "engineAvailable ev")
    case False
    with True d o show ?thesis
      by (simp add: initializeScene_passes tryInitialize_noEngine)
  next
    case e: True
    show ?thesis
    proof (cases "truthy (jsonFilePath p) \<or> truthy (projectId p)")
      case True
      with \<open>passesGuards p s\<close> e d show ?thesis
        by (simp add: initializeScene_passes tryInitialize_source)
    next
      case False
      with \<open>passesGuards p s\<close> e d o show ?thesis
        by (simp add: initializeScene_passes tryInitialize_noSource)
    qed
  qed
qed

section \<open>Effects and commits\<close>

lemma validationEffect_fields [simp]:
  "sceneRef (validationEffect p s) = sceneRef s"
  "pending (validationEffect p s) = pending s"
  "nextAttempt (validationEffect p s) = nextAttempt s"
  "initializationKeyRef (validationEffect p s) = initializationKeyRef s"
  "isInitializingRef (validationEffect p s) = isInitializingRef s"
  "hasAttemptedRef (validationEffect p s) = hasAttemptedRef s"
  "element (validationEffect p s) = element s"
  "rendered (validationEffect p s) = rendered s"
  by (simp_all add: validationEffect_def Let_def)

lemma validationEffect_calls:
  "\<exists>cs. calls (validationEffect p s) = calls s @ cs
        \<and> filter isEngineCall cs = [] \<and> list_all (isTimerOf ms) cs"
  by (cases "onError p") (simp_all add: validationEffect_def Let_def callOpt_def)

lemma resetEffect_fields [simp]:
  "sceneRef (resetEffect p s) = sceneRef s"
  "pending (resetEffect p s) = pending s"
  "nextAttempt (resetEffect p s) = nextAttempt s"
  "element (resetEffect p s) = element s"
  "rendered (resetEffect p s) = rendered s"
  "prevValidationError (resetEffect p s) = prevValidationError s"
  "calls (resetEffect p s) = calls s"
  by (simp_all add: resetEffect_def Let_def)

lemma pausedEffect_fields [simp]:
  "pending (pausedEffect p s) = pending s"
  "nextAttempt (pausedEffect p s) = nextAttempt s"
  "element (pausedEffect p s) = element s"
  "rendered (pausedEffect p s) = rendered s"
  "prevValidationError (pausedEffect p s) = prevValidationError s"
  "calls (pausedEffect p s) = calls s"
  "initError (pausedEffect p s) = initError s"
  "initializationKeyRef (pausedEffect p s) = initializationKeyRef s"
  "isInitializingRef (pausedEffect p s) = isInitializingRef s"
  "hasAttemptedRef (pausedEffect p s) = hasAttemptedRef s"
  by (simp_all add: pausedEffect_def split: option.splits)

lemma pausedEffect_scene:
  "sceneRef s = Some sc \<Longrightarrow>
   \<exists>sc'. sceneRef (pausedEffect p s) = Some sc' \<and> sceneId sc' = sceneId sc
         \<and> hasDestroy sc' = hasDestroy sc"
  by (simp add: pausedEffect_def split: option.splits)

lemma pausedEffect_noScene [simp]: "sceneRef s = None \<Longrightarrow> pausedEffect p s = s"
  by (simp add: pausedEffect_def)

lemma validationEffect_same:
  "validationError p = prevValidationError s \<Longrightarrow> validationEffect p s = s"
  by (simp add: validationEffect_def)

lemma resetEffect_same:
  "initializationKeyRef s = configKey p \<Longrightarrow> resetEffect p s = s"
  by (simp add: resetEffect_def)

lemma resetEffect_differs:
  assumes "initializationKeyRef s \<noteq> configKey p"
  shows "initError (resetEffect p s) = None" "\<not> hasAttemptedRef (resetEffect p s)"
    "\<not> isInitializingRef (resetEffect p s)" "initializationKeyRef (resetEffect p s) = []"
  using assms by (simp_all add: resetEffect_def)

lemma commit_first:
  "rendered s = None \<Longrightarrow>
   commit p ev s = (pausedEffect p (resetEffect p (initEffect p ev (validationEffect p s))))
                     \<lparr>rendered := Some p\<rparr>"
  by (simp add: commit_def)

lemma commit_again:
  "rendered s = Some old \<Longrightarrow>
   commit p ev s =
     (let s1 = (if validationError old \<noteq> validationError p \<or> onError old \<noteq> onError p
                then validationEffect p s else s);
          s2 = (if initializeSceneChanged old p then initEffect p ev s1 else s1);
          s3 = (if keyDepsChanged old p then resetEffect p s2 else s2);
          s4 = (if paused old \<noteq> paused p then pausedEffect p s3 else s3)
      in s4\<lparr>rendered := Some p\<rparr>)"
  by (simp add: commit_def)

lemma commit_unchanged: "rendered s = Some p \<Longrightarrow> commit p ev s = s"
  by (simp add: commit_again initializeSceneChanged_def keyDepsChanged_def)

lemma commit_init_only:
  assumes "rendered s = Some old" "validationError old = validationError p"
    "onError old = onError p" "initializeSceneChanged old p" "\<not> keyDepsChanged old p"
    "paused old = paused p"
  shows "commit p ev s = (initEffect p ev s)\<lparr>rendered := Some p\<rparr>"
  by (simp only: commit_again [OF assms(1)] Let_def assms simp_thms if_True if_False)

lemma commit_init_reset:
  assumes "rendered s = Some old" "validationError old = validationError p"
    "onError old = onError p" "initializeSceneChanged old p" "keyDepsChanged old p"
    "paused old = paused p"
  shows "commit p ev s = (resetEffect p (initEffect p ev s))\<lparr>rendered := Some p\<rparr>"
  by (simp only: commit_again [OF assms(1)] Let_def assms simp_thms if_True if_False)

lemma commit_attempts:
  "(pending (commit p ev s) = pending s \<and> nextAttempt (commit p ev s) = nextAttempt s)
   \<or> (\<exists>a. attemptId a = nextAttempt s
          \<and> pending (commit p ev s) = pending s @ [a]
          \<and> nextAttempt (commit p ev s) = Suc (nextAttempt s))"
proof -
  have v: "\<And>c. pending (if c then validationEffect p s else s) = pending s"
     "\<And>c. nextAttempt (if c then validationEffect p s else s) = nextAttempt s"
    by simp_all
  have i: "\<And>c t. (pending (if c then initEffect p ev t else t) = pending t
             \<and> nextAttempt (if c then initEffect p ev t else t) = nextAttempt t)
          \<or> (\<exists>a. attemptId a = nextAttempt t
             \<and> pending (if c then initEffect p ev t else t) = pending t @ [a]
             \<and> nextAttempt (if c then initEffect p ev t else t) = Suc (nextAttempt t))"
    using initializeScene_attempts by (simp add: initEffect_def)
  show ?thesis
    unfolding commit_def Let_def
    using i [of _ "if (case rendered s of None \<Rightarrow> True
                        | Some old \<Rightarrow> validationError old \<noteq> validationError p
                                      \<or> onError old \<noteq> onError p)
                   then validationEffect p s else s"]
    by (simp add: v)
qed

lemma commit_calls_grow:
  "\<exists>cs. calls (commit p ev s) = calls s @ cs \<and> list_all (isTimerOf timeoutMs) cs"
proof -
  have v: "\<And>c. \<exists>cs. calls (if c then validationEffect p s else s) = calls s @ cs
              \<and> list_all (isTimerOf timeoutMs) cs"
    using validationEffect_calls [of p s timeoutMs] by auto
  have i: "\<And>c t. \<exists>cs. calls (if c then initEffect p ev t else t) = calls t @ cs
              \<and> list_all (isTimerOf timeoutMs) cs"
    using initializeScene_calls_grow by (simp add: initEffect_def)
  let ?s1 = "if (case rendered s of None \<Rightarrow> True
                        | Some old \<Rightarrow> validationError old \<noteq> validationError p
                                      \<or> onError old \<noteq> onError p)
                   then validationEffect p s else s"
  let ?s2 = "if (case rendered s of None \<Rightarrow> True | Some old \<Rightarrow> initializeSceneChanged old p)
             then initEffect p ev ?s1 else ?s1"
  obtain cs1 where c1: "calls ?s1 = calls s @ cs1" "list_all (isTimerOf timeoutMs) cs1"
    using v by blast
  obtain cs2 where c2: "calls ?s2 = calls ?s1 @ cs2" "list_all (isTimerOf timeoutMs) cs2"
    using i by blast
  have "calls (commit p ev s) = calls ?s2"
    unfolding commit_def Let_def by simp
  with c1 c2 show ?thesis by simp
qed

lemma validationEffect_engineCalls [simp]:
  "engineCalls (validationEffect p s) = engineCalls s"
  using validationEffect_calls [of p s 0] by (auto simp add: engineCalls_def)

lemma pausedEffect_engineCalls [simp]: "engineCalls (pausedEffect p s) = engineCalls s"
  by (simp add: engineCalls_def)

lemma engineCalls_rendered [simp]: "engineCalls (s\<lparr>rendered := x\<rparr>) = engineCalls s"
  by (simp add: engineCalls_def)

lemma addSceneCalls_rendered [simp]: "addSceneCalls (s\<lparr>rendered := x\<rparr>) = addSceneCalls s"
  by (simp add: addSceneCalls_def)

lemma passesGuards_rendered [simp]: "passesGuards p (s\<lparr>rendered := x\<rparr>) = passesGuards p s"
  by (simp add: passesGuards_def)

text \<open>A commit that keeps the fingerprint of a live scene leaves the engine alone.\<close>

lemma commit_keeps_scene:
  assumes r: "rendered s = Some p" and k: "\<not> keyDepsChanged p q"
    and kq: "initializationKeyRef s = configKey q" and sc: "sceneRef s = Some sc"
  shows "engineCalls (commit q ev s) = engineCalls s"
    and "pending (commit q ev s) = pending s"
    and "\<exists>sc'. sceneRef (commit q ev s) = Some sc' \<and> sceneId sc' = sceneId sc"
proof -
  define s1 where "s1 = (if validationError p \<noteq> validationError q \<or> onError p \<noteq> onError q
             then validationEffect q s else s)"
  define s2 where "s2 = (if initializeSceneChanged p q then initEffect q ev s1 else s1)"
  define s4 where "s4 = (if paused p \<noteq> paused q then pausedEffect q s2 else s2)"
  have e1: "engineCalls s1 = engineCalls s" "pending s1 = pending s" "sceneRef s1 = Some sc"
    "initializationKeyRef s1 = configKey q"
    using kq sc by (simp_all add: s1_def)
  have b: "\<not> passesGuards q s1"
    using e1 by (simp add: passesGuards_def)
  have i: "engineCalls (initEffect q ev s1) = engineCalls s1"
    "pending (initEffect q ev s1) = pending s1" "sceneRef (initEffect q ev s1) = sceneRef s1"
    using initializeScene_calls_blocked [OF b, of ev] by (simp_all add: initEffect_def)
  have e2: "engineCalls s2 = engineCalls s" "pending s2 = pending s" "sceneRef s2 = Some sc"
    using e1 i by (simp_all add: s2_def)
  have e4: "engineCalls s4 = engineCalls s" "pending s4 = pending s"
    using e2 by (simp_all add: s4_def)
  have e4s: "\<exists>sc'. sceneRef s4 = Some sc' \<and> sceneId sc' = sceneId sc"
  proof (cases "paused p \<noteq> paused q")
    case True
    with pausedEffect_scene [OF e2(3), of q] show ?thesis
      unfolding s4_def by auto
  next
    case False
    with e2(3) show ?thesis unfolding s4_def by simp
  qed
  have c: "commit q ev s = s4\<lparr>rendered := Some q\<rparr>"
    by (simp only: commit_again [OF r] Let_def s1_def s2_def s4_def k if_False)
  show "engineCalls (commit q ev s) = engineCalls s"
    using e4 by (simp add: c)
  show "pending (commit q ev s) = pending s"
    using e4 by (simp add: c)
  show "\<exists>sc'. sceneRef (commit q ev s) = Some sc' \<and> sceneId sc' = sceneId sc"
    using e4s by (simp add: c)
qed

lemma commit_not_loaded:
  assumes r: "rendered s = Some old" and k: "keyDepsChanged old p"
    and d: "initializationKeyRef s \<noteq> configKey p" and n: "\<not> isScriptLoaded p"
  shows "initError (commit p ev s) = None" "\<not> hasAttemptedRef (commit p ev s)"
    "\<not> isInitializingRef (commit p ev s)" "initializationKeyRef (commit p ev s) = []"
proof -
  define s1 where "s1 = (if validationError old \<noteq> validationError p \<or> onError old \<noteq> onError p
             then validationEffect p s else s)"
  define s2 where "s2 = (if initializeSceneChanged old p then initEffect p ev s1 else s1)"
  define s3 where "s3 = resetEffect p s2"
  define s4 where "s4 = (if paused old \<noteq> paused p then pausedEffect p s3 else s3)"
  have k1: "initializationKeyRef s1 \<noteq> configKey p"
    using d by (simp add: s1_def)
  have e: "s2 = s1"
    using n by (simp add: s2_def initEffect_def)
  note f = resetEffect_differs [OF k1]
  have e4: "initError s4 = None" "\<not> hasAttemptedRef s4" "\<not> isInitializingRef s4"
    "initializationKeyRef s4 = []"
    using f by (simp_all add: s4_def s3_def e)
  have c: "commit p ev s = s4\<lparr>rendered := Some p\<rparr>"
    by (simp only: commit_again [OF r] Let_def s1_def s2_def s3_def s4_def k if_True)
  show "initError (commit p ev s) = None" "\<not> hasAttemptedRef (commit p ev s)"
    "\<not> isInitializingRef (commit p ev s)" "initializationKeyRef (commit p ev s) = []"
    using e4 by (simp_all add: c)
qed

section \<open>Settling an attempt\<close>

lemma find_attempt_None:
  "(find (\<lambda>a. attemptId a = i) ps = None) = (i \<notin> attemptId ` set ps)"
  by (auto simp add: find_None_iff)

lemma find_attempt_Some:
  "find (\<lambda>a. attemptId a = i) ps = Some a \<Longrightarrow> a \<in> set ps \<and> attemptId a = i"
  by (auto simp add: find_Some_iff)

lemma settle_absent: "i \<notin> attemptId ` set (pending s) \<Longrightarrow> settle i out s = s"
  using find_attempt_None [of i "pending s"] by (simp add: settle_def)

lemma catchError_addScene [simp]:
  "concat (map addSceneOf (calls (catchError cb thrown s))) = concat (map addSceneOf (calls s))"
  "filter isEngineCall (calls (catchError cb thrown s)) = filter isEngineCall (calls s)"
  by (cases thrown; simp)+

lemma settle_pending [simp]:
  "pending (settle i out s) = filter (\<lambda>a. attemptId a \<noteq> i) (pending s)"
proof (cases "find (\<lambda>a. attemptId a = i) (pending s)")
  case None
  then have "i \<notin> attemptId ` set (pending s)" by (simp add: find_attempt_None)
  then have "filter (\<lambda>a. attemptId a \<noteq> i) (pending s) = pending s"
    by (auto simp add: filter_id_conv)
  with None show ?thesis by (simp add: settle_def)
next
  case (Some a)
  then show ?thesis
    by (simp add: settle_def Let_def split: outcome.splits option.splits)
qed

lemma settle_fields [simp]:
  "nextAttempt (settle i out s) = nextAttempt s"
  "element (settle i out s) = element s"
  "rendered (settle i out s) = rendered s"
  "initializationKeyRef (settle i out s) = initializationKeyRef s"
  by (simp_all add: settle_def Let_def split: outcome.splits option.splits)

lemma settle_addSceneCalls [simp]: "addSceneCalls (settle i out s) = addSceneCalls s"
  by (simp add: settle_def Let_def addSceneCalls_def split: outcome.splits option.splits)

lemma settle_flag:
  "i \<in> attemptId ` set (pending s) \<Longrightarrow> \<not> isInitializingRef (settle i out s)"
  by (cases "find (\<lambda>a. attemptId a = i) (pending s)")
     (simp_all add: find_attempt_None settle_def Let_def split: outcome.splits option.splits)

lemma settle_calls_grow:
  "\<exists>cs. calls (settle i out s) = calls s @ cs \<and> list_all (isTimerOf timeoutMs) cs"
proof (cases "find (\<lambda>a. attemptId a = i) (pending s)")
  case None
  then show ?thesis by (simp add: settle_def)
next
  case (Some a)
  have o: "\<And>m. list_all (isTimerOf timeoutMs) (callOpt (att_onError a) (\<lambda>c. OnError c m))"
    by (cases "att_onError a") (simp_all add: callOpt_def)
  have l: "list_all (isTimerOf timeoutMs) (callOpt (att_onLoad a) OnLoad)"
    by (cases "att_onLoad a") (simp_all add: callOpt_def)
  show ?thesis
  proof (cases out)
    case (Resolved r)
    with Some o l show ?thesis
      by (cases r) (simp_all add: settle_def Let_def)
  next
    case (Rejected t)
    with Some o show ?thesis
      by (cases t) (simp_all add: settle_def Let_def)
  next
    case TimedOut
    with Some o show ?thesis
      by (simp add: settle_def Let_def)
  qed
qed

lemma settle_timeout:
  assumes "find (\<lambda>a. attemptId a = i) (pending s) = Some a"
  shows "initError (settle i TimedOut s) = Some ''Loading timeout''"
    and "calls (settle i TimedOut s) =
           calls s @ [ClearTimeout i]
             @ (case att_onError a of None \<Rightarrow> [] | Some c \<Rightarrow> [OnError c ''Loading timeout''])"
    and "sceneRef (settle i TimedOut s) = sceneRef s"
proof -
  have t: "sanitize ''Scene initialization timeout'' = ''Loading timeout''"
    by (simp add: sanitize_def)
  show "initError (settle i TimedOut s) = Some ''Loading timeout''"
    and "calls (settle i TimedOut s) =
           calls s @ [ClearTimeout i]
             @ (case att_onError a of None \<Rightarrow> [] | Some c \<Rightarrow> [OnError c ''Loading timeout''])"
    and "sceneRef (settle i TimedOut s) = sceneRef s"
    using assms by (simp_all add: settle_def Let_def t callOpt_def)
qed

lemma settle_rejected:
  assumes "find (\<lambda>a. attemptId a = i) (pending s) = Some a"
  shows "initError (settle i (Rejected (Some m)) s) = Some (sanitize m)"
    and "sceneRef (settle i (Rejected thrown) s) = sceneRef s"
    and "\<not> isInitializingRef (settle i (Rejected thrown) s)"
  using assms by (simp_all add: settle_def Let_def)

lemma settle_resolved:
  assumes "find (\<lambda>a. attemptId a = i) (pending s) = Some a"
  shows "initError (settle i (Resolved (Some sc)) s) = None"
    and "sceneRef (settle i (Resolved (Some sc)) s) = Some sc"
    and "\<not> isInitializingRef (settle i (Resolved (Some sc)) s)"
  using assms by (simp_all add: settle_def Let_def)

section \<open>Runs of the controller\<close>

lemma run_Nil [simp]: "run s [] = s"
  by (simp add: run_def)

lemma run_Cons [simp]: "run s (e # es) = run (step s e) es"
  by (simp add: run_def)

lemma step_attempts:
  "(set (pending (step s e)) \<subseteq> set (pending s) \<and> nextAttempt (step s e) = nextAttempt s
      \<and> (distinct (map attemptId (pending s)) \<longrightarrow> distinct (map attemptId (pending (step s e)))))
   \<or> (\<exists>a. attemptId a = nextAttempt s \<and> pending (step s e) = pending s @ [a]
          \<and> nextAttempt (step s e) = Suc (nextAttempt s))"
proof (cases e)
  case (Commit p ev)
  with commit_attempts [of p ev s] show ?thesis by auto
next
  case (Settle i out)
  then show ?thesis by (simp add: distinct_map_filter)
next
  case Unmount
  then show ?thesis by simp
qed

lemma step_fresh: "attemptsFresh s \<Longrightarrow> attemptsFresh (step s e)"
  using step_attempts [of s e]
  by (fastforce simp add: attemptsFresh_def list_all_iff)

lemma run_fresh: "attemptsFresh s \<Longrightarrow> attemptsFresh (run s es)"
  by (induction es arbitrary: s) (simp_all add: step_fresh)

lemma mounted_fresh: "attemptsFresh (mounted el)"
  by (simp add: attemptsFresh_def mounted_def)

lemma step_gone:
  assumes "i < nextAttempt s" "i \<notin> attemptId ` set (pending s)"
  shows "i < nextAttempt (step s e) \<and> i \<notin> attemptId ` set (pending (step s e))"
  using step_attempts [of s e] assms by auto

lemma run_gone:
  "i < nextAttempt s \<Longrightarrow> i \<notin> attemptId ` set (pending s) \<Longrightarrow>
   i < nextAttempt (run s es) \<and> i \<notin> attemptId ` set (pending (run s es))"
proof (induction es arbitrary: s)
  case Nil
  then show ?case by simp
next
  case (Cons e es)
  from step_gone [OF Cons.prems, of e] Cons.IH [of "step s e"] show ?case by simp
qed

lemma step_calls_grow:
  "\<exists>cs. calls (step s e) = calls s @ cs \<and> list_all (isTimerOf timeoutMs) cs"
proof (cases e)
  case (Commit p ev)
  with commit_calls_grow [of p ev s] show ?thesis by simp
next
  case (Settle i out)
  with settle_calls_grow [of i out s] show ?thesis by simp
next
  case Unmount
  then show ?thesis by (simp split: option.splits)
qed

lemma run_timers:
  "list_all (isTimerOf timeoutMs) (calls s) \<Longrightarrow> list_all (isTimerOf timeoutMs) (calls (run s es))"
proof (induction es arbitrary: s)
  case Nil
  then show ?case by simp
next
  case (Cons e es)
  from step_calls_grow [of s e] Cons.prems
  have "list_all (isTimerOf timeoutMs) (calls (step s e))" by auto
  from Cons.IH [OF this] show ?case by simp
qed

text \<open>
  One round of the retry: a commit that renews only the identity of \<open>onLoad\<close>, in a
  state without scene or suspended attempt, calls \<open>addScene\<close>; when the engine rejects,
  the state is as before, with the new props and a new error.
\<close>

lemma retry_round:
  assumes r: "rendered s = Some old"
    and st: "sceneRef s = None" "\<not> isInitializingRef s" "element s \<noteq> None" "pending s = []"
    and v: "validationError old = None" "isScriptLoaded old"
       "truthy (jsonFilePath old) \<or> truthy (projectId old)"
    and e: "engineAvailable ev" and n: "onLoad old \<noteq> Some n"
  shows "length (addSceneCalls (commit (old\<lparr>onLoad := Some n\<rparr>) ev s)) = Suc (length (addSceneCalls s))"
    and "rendered (settle (nextAttempt s) (Rejected (Some m)) (commit (old\<lparr>onLoad := Some n\<rparr>) ev s))
           = Some (old\<lparr>onLoad := Some n\<rparr>)"
    and "sceneRef (settle (nextAttempt s) (Rejected (Some m)) (commit (old\<lparr>onLoad := Some n\<rparr>) ev s))
           = None"
    and "\<not> isInitializingRef
           (settle (nextAttempt s) (Rejected (Some m)) (commit (old\<lparr>onLoad := Some n\<rparr>) ev s))"
    and "element (settle (nextAttempt s) (Rejected (Some m)) (commit (old\<lparr>onLoad := Some n\<rparr>) ev s))
           \<noteq> None"
    and "pending (settle (nextAttempt s) (Rejected (Some m)) (commit (old\<lparr>onLoad := Some n\<rparr>) ev s))
           = []"
    and "length (addSceneCalls
           (settle (nextAttempt s) (Rejected (Some m)) (commit (old\<lparr>onLoad := Some n\<rparr>) ev s)))
           = Suc (length (addSceneCalls s))"
    and "nextAttempt (settle (nextAttempt s) (Rejected (Some m)) (commit (old\<lparr>onLoad := Some n\<rparr>) ev s))
           = Suc (nextAttempt s)"
    and "initError (settle (nextAttempt s) (Rejected (Some m)) (commit (old\<lparr>onLoad := Some n\<rparr>) ev s))
           = Some (sanitize m)"
proof -
  define p where "p = old\<lparr>onLoad := Some n\<rparr>"
  define t where "t = commit p ev s"
  have pv: "validationError p = None" "isScriptLoaded p"
    "truthy (jsonFilePath p) \<or> truthy (projectId p)"
    using v by (simp_all add: p_def validationError_def)
  have ch: "initializeSceneChanged old p" "\<not> keyDepsChanged old p"
    using n by (auto simp add: p_def initializeSceneChanged_def keyDepsChanged_def)
  have c: "t = (initEffect p ev s)\<lparr>rendered := Some p\<rparr>"
    unfolding t_def
    by (rule commit_init_only [OF r _ _ ch]) (simp_all add: p_def validationError_def)
  have g: "passesGuards p s"
    using st pv by (simp add: passesGuards_def)
  note f = initializeScene_calls_source [OF g e pv(3)]
  have i: "initEffect p ev s = initializeScene p ev s"
    using pv by (simp add: initEffect_def)
  have tf: "pending t = [\<lparr>attemptId = nextAttempt s, att_onLoad = onLoad p, att_onError = onError p\<rparr>]"
    "sceneRef t = None" "element t \<noteq> None" "rendered t = Some p"
    "nextAttempt t = Suc (nextAttempt s)"
    "length (addSceneCalls t) = Suc (length (addSceneCalls s))"
    using st by (simp_all add: c i f)
  have fd: "find (\<lambda>a. attemptId a = nextAttempt s) (pending t)
              = Some \<lparr>attemptId = nextAttempt s, att_onLoad = onLoad p, att_onError = onError p\<rparr>"
    by (simp add: tf)
  note sr = settle_rejected [OF fd]
  show "length (addSceneCalls (commit (old\<lparr>onLoad := Some n\<rparr>) ev s)) = Suc (length (addSceneCalls s))"
    using tf by (simp add: t_def p_def)
  show "rendered (settle (nextAttempt s) (Rejected (Some m)) (commit (old\<lparr>onLoad := Some n\<rparr>) ev s))
           = Some (old\<lparr>onLoad := Some n\<rparr>)"
    using tf by (simp add: t_def p_def)
  show "sceneRef (settle (nextAttempt s) (Rejected (Some m)) (commit (old\<lparr>onLoad := Some n\<rparr>) ev s))
           = None"
    using sr(2) [of "Some m"] tf by (simp add: t_def p_def)
  show "\<not> isInitializingRef
           (settle (nextAttempt s) (Rejected (Some m)) (commit (old\<lparr>onLoad := Some n\<rparr>) ev s))"
    using sr(3) [of "Some m"] by (simp add: t_def p_def)
  show "element (settle (nextAttempt s) (Rejected (Some m)) (commit (old\<lparr>onLoad := Some n\<rparr>) ev s))
           \<noteq> None"
    using tf by (simp add: t_def p_def)
  show "pending (settle (nextAttempt s) (Rejected (Some m)) (commit (old\<lparr>onLoad := Some n\<rparr>) ev s))
           = []"
    using tf(1) by (simp add: t_def p_def)
  show "length (addSceneCalls
           (settle (nextAttempt s) (Rejected (Some m)) (commit (old\<lparr>onLoad := Some n\<rparr>) ev s)))
           = Suc (length (addSceneCalls s))"
    using tf by (simp add: t_def p_def)
  show "nextAttempt (settle (nextAttempt s) (Rejected (Some m)) (commit (old\<lparr>onLoad := Some n\<rparr>) ev s))
           = Suc (nextAttempt s)"
    using tf by (simp add: t_def p_def)
  show "initError (settle (nextAttempt s) (Rejected (Some m)) (commit (old\<lparr>onLoad := Some n\<rparr>) ev s))
           = Some (sanitize m)"
    using sr(1) [of m] by (simp add: t_def p_def)
qed

section \<open>The sample configuration\<close>

lemma valid_sample: "validationError sampleProps = None"
  by (simp add: validationError_def sampleProps_def validateParameters_def validateScale_def
        validateFPS_def VALID_FPS_def)

lemma sample_passes: "passesGuards sampleProps stage"
  by (simp add: passesGuards_def stage_def mounted_def valid_sample) (simp add: sampleProps_def)

lemma sample_source: "truthy (jsonFilePath sampleProps) \<or> truthy (projectId sampleProps)"
  by (simp add: sampleProps_def)

lemma sample_engine: "engineAvailable sampleEnv"
  by (simp add: sampleEnv_def)

lemma stage_fields [simp]:
  "sceneRef stage = None" "pending stage = []" "calls stage = []" "nextAttempt stage = 0"
  "initError stage = None" "rendered stage = None" "\<not> isInitializingRef stage"
  "prevValidationError stage = None" "initializationKeyRef stage = []"
  "element stage = Some ''stage''"
  by (simp_all add: stage_def mounted_def)

lemma addSceneCalls_stage [simp]: "addSceneCalls stage = []"
  by (simp add: addSceneCalls_def)

lemma passes_stage:
  "isScriptLoaded p \<Longrightarrow> validationError p = None \<Longrightarrow> passesGuards p stage"
  by (simp add: passesGuards_def)

lemma sample_variants_valid:
  "validationError (sampleProps\<lparr>jsonFilePath := Some ''/scenes/hero.json''\<rparr>) = None"
  "validationError (sampleProps\<lparr>projectId := None\<rparr>) = None"
  "isScriptLoaded (sampleProps\<lparr>jsonFilePath := Some ''/scenes/hero.json''\<rparr>)"
  "isScriptLoaded (sampleProps\<lparr>projectId := None\<rparr>)"
  "isScriptLoaded sampleProps"
  using valid_sample by (simp_all add: validationError_def) (simp_all add: sampleProps_def)

lemma sample_commit:
  "commit sampleProps sampleEnv stage =
     (initializeScene sampleProps sampleEnv stage)\<lparr>rendered := Some sampleProps\<rparr>"
proof -
  have i: "initEffect sampleProps sampleEnv stage = initializeScene sampleProps sampleEnv stage"
    by (simp add: initEffect_def sampleProps_def)
  note f = initializeScene_calls_source [OF sample_passes sample_engine sample_source]
  show ?thesis
    by (simp add: commit_first validationEffect_same valid_sample i resetEffect_same f)
qed

lemma sample_committed:
  "pending (commit sampleProps sampleEnv stage) =
     [\<lparr>attemptId = 0, att_onLoad = Some 0, att_onError = Some 1\<rparr>]"
  "sceneRef (commit sampleProps sampleEnv stage) = None"
  "initError (commit sampleProps sampleEnv stage) = None"
  "initializationKeyRef (commit sampleProps sampleEnv stage) = configKey sampleProps"
  "rendered (commit sampleProps sampleEnv stage) = Some sampleProps"
  "\<not> isInitializingRef (commit sampleProps sampleEnv stage)"
  "element (commit sampleProps sampleEnv stage) \<noteq> None"
  "length (addSceneCalls (commit sampleProps sampleEnv stage)) = 1"
  "nextAttempt (commit sampleProps sampleEnv stage) = 1"
proof -
  note f = initializeScene_calls_source [OF sample_passes sample_engine sample_source]
  show "pending (commit sampleProps sampleEnv stage) =
     [\<lparr>attemptId = 0, att_onLoad = Some 0, att_onError = Some 1\<rparr>]"
    by (simp add: sample_commit f) (simp add: sampleProps_def)
  show "sceneRef (commit sampleProps sampleEnv stage) = None"
    by (simp add: sample_commit f)
  show "initError (commit sampleProps sampleEnv stage) = None"
    by (simp add: sample_commit f)
  show "initializationKeyRef (commit sampleProps sampleEnv stage) = configKey sampleProps"
    by (simp add: sample_commit f)
  show "rendered (commit sampleProps sampleEnv stage) = Some sampleProps"
    by (simp add: sample_commit)
  show "\<not> isInitializingRef (commit sampleProps sampleEnv stage)"
    by (simp add: sample_commit f)
  show "element (commit sampleProps sampleEnv stage) \<noteq> None"
    by (simp add: sample_commit f)
  show "length (addSceneCalls (commit sampleProps sampleEnv stage)) = 1"
    by (simp add: sample_commit f)
  show "nextAttempt (commit sampleProps sampleEnv stage) = 1"
    by (simp add: sample_commit f)
qed

lemma sample_find:
  "find (\<lambda>a. attemptId a = 0) (pending (commit sampleProps sampleEnv stage)) =
     Some \<lparr>attemptId = 0, att_onLoad = Some 0, att_onError = Some 1\<rparr>"
  by (simp add: sample_committed)

lemma failedOnce_eq:
  "failedOnce = settle 0 (Rejected (Some ''boom'')) (commit sampleProps sampleEnv stage)"
  by (simp add: failedOnce_def)

lemma failedOnce_fields:
  "initError failedOnce = Some ''boom''"
  "sceneRef failedOnce = None"
  "\<not> isInitializingRef failedOnce"
  "initializationKeyRef failedOnce = configKey sampleProps"
  "rendered failedOnce = Some sampleProps"
  "element failedOnce \<noteq> None"
  "pending failedOnce = []"
  "length (addSceneCalls failedOnce) = 1"
proof -
  have b: "sanitize ''boom'' = ''boom''" by (simp add: sanitize_def)
  show "initError failedOnce = Some ''boom''"
    by (simp add: failedOnce_eq settle_rejected [OF sample_find] b)
  show "sceneRef failedOnce = None"
    by (simp add: failedOnce_eq settle_rejected [OF sample_find] sample_committed)
  show "\<not> isInitializingRef failedOnce"
    by (simp add: failedOnce_eq settle_rejected [OF sample_find])
  show "initializationKeyRef failedOnce = configKey sampleProps"
    by (simp add: failedOnce_eq sample_committed)
  show "rendered failedOnce = Some sampleProps"
    by (simp add: failedOnce_eq sample_committed)
  show "element failedOnce \<noteq> None"
    by (simp add: failedOnce_eq sample_committed)
  show "pending failedOnce = []"
    by (simp add: failedOnce_eq sample_committed)
  show "length (addSceneCalls failedOnce) = 1"
    by (simp add: failedOnce_eq sample_committed)
qed

lemma liveScene_eq:
  "liveScene = settle 0 (Resolved (Some \<lparr>sceneId = 7, hasDestroy = True, paused_prop = None\<rparr>))
                 (commit sampleProps sampleEnv stage)"
  by (simp add: liveScene_def)

lemma liveScene_fields:
  "sceneRef liveScene = Some \<lparr>sceneId = 7, hasDestroy = True, paused_prop = None\<rparr>"
  "initializationKeyRef liveScene = configKey sampleProps"
  "rendered liveScene = Some sampleProps"
proof -
  show "sceneRef liveScene = Some \<lparr>sceneId = 7, hasDestroy = True, paused_prop = None\<rparr>"
    by (simp add: liveScene_eq settle_resolved [OF sample_find])
  show "initializationKeyRef liveScene = configKey sampleProps"
    by (simp add: liveScene_eq sample_committed)
  show "rendered liveScene = Some sampleProps"
    by (simp add: liveScene_eq sample_committed)
qed

lemma retitled_facts:
  "validationError retitledProps = validationError sampleProps"
  "onError sampleProps = onError retitledProps"
  "initializeSceneChanged sampleProps retitledProps"
  "\<not> keyDepsChanged sampleProps retitledProps"
  "paused sampleProps = paused retitledProps"
  "configKey retitledProps = configKey sampleProps"
  "isScriptLoaded retitledProps"
  "truthy (jsonFilePath retitledProps) \<or> truthy (projectId retitledProps)"
  by (simp_all add: retitledProps_def validationError_def initializeSceneChanged_def
        keyDepsChanged_def configKey_def)
     (simp_all add: sampleProps_def)

lemma other_facts:
  "validationError otherProject = validationError sampleProps"
  "onError sampleProps = onError otherProject"
  "initializeSceneChanged sampleProps otherProject"
  "keyDepsChanged sampleProps otherProject"
  "paused sampleProps = paused otherProject"
  "configKey otherProject \<noteq> configKey sampleProps"
  "isScriptLoaded otherProject"
  "truthy (jsonFilePath otherProject) \<or> truthy (projectId otherProject)"
  by (simp_all add: otherProject_def validationError_def initializeSceneChanged_def
        keyDepsChanged_def configKey_def)
     (simp_all add: sampleProps_def)

lemma unloaded_facts:
  "keyDepsChanged sampleProps (otherProject\<lparr>isScriptLoaded := False\<rparr>)"
  "configKey (otherProject\<lparr>isScriptLoaded := False\<rparr>) = configKey otherProject"
  "\<not> isScriptLoaded (otherProject\<lparr>isScriptLoaded := False\<rparr>)"
  using other_facts by (simp_all add: keyDepsChanged_def configKey_def)

lemma failedOnce_passes: "passesGuards sampleProps failedOnce"
  using failedOnce_fields by (simp add: passesGuards_def valid_sample) (simp add: sampleProps_def)

lemma failedOnce_passes_retitled: "passesGuards retitledProps failedOnce"
  using failedOnce_fields retitled_facts by (simp add: passesGuards_def valid_sample)

lemma failedOnce_passes_other: "passesGuards otherProject failedOnce"
  using failedOnce_fields other_facts by (simp add: passesGuards_def valid_sample)

lemma committed_passes_retitled: "passesGuards retitledProps (commit sampleProps sampleEnv stage)"
  using sample_committed retitled_facts by (simp add: passesGuards_def valid_sample)

lemma sample_two_requests:
  "length (addSceneCalls (initializeScene sampleProps sampleEnv
            (initializeScene sampleProps sampleEnv stage))) = 2
   \<and> map attemptId (pending (initializeScene sampleProps sampleEnv
            (initializeScene sampleProps sampleEnv stage))) = [0, 1]"
proof -
  let ?s1 = "initializeScene sampleProps sampleEnv stage"
  have p1: "passesGuards sampleProps ?s1"
    by (rule passes_again [OF sample_passes sample_engine sample_source]) simp
  have a1: "length (addSceneCalls ?s1) = 1" "map attemptId (pending ?s1) = [0]"
    "nextAttempt ?s1 = 1"
    by (simp_all add: initializeScene_calls_source [OF sample_passes sample_engine sample_source])
  show ?thesis
    by (simp add: initializeScene_calls_source [OF p1 sample_engine sample_source] a1)
qed

lemma sample_two_commits:
  "length (addSceneCalls (run stage [Commit sampleProps sampleEnv,
                                     Commit retitledProps sampleEnv])) = 2
   \<and> length (pending (run stage [Commit sampleProps sampleEnv,
                                  Commit retitledProps sampleEnv])) = 2"
proof -
  let ?s1 = "commit sampleProps sampleEnv stage"
  have c: "commit retitledProps sampleEnv ?s1 =
             (initEffect retitledProps sampleEnv ?s1)\<lparr>rendered := Some retitledProps\<rparr>"
    by (rule commit_init_only [where old = sampleProps]) (simp_all add: sample_committed retitled_facts)
  note f = initializeScene_calls_source
             [OF committed_passes_retitled sample_engine retitled_facts(8)]
  show ?thesis
    by (simp add: c initEffect_def retitled_facts f sample_committed)
qed

lemma failedOnce_next: "nextAttempt failedOnce = 1"
  by (simp add: failedOnce_eq sample_committed)

lemma sample_onLoad: "onLoad sampleProps = Some 0" "isScriptLoaded sampleProps"
  by (simp_all add: sampleProps_def)

lemma sample_rerenders:
  "length (addSceneCalls (commit (sampleProps\<lparr>onLoad := Some 2\<rparr>) sampleEnv failedOnce)) = 2"
  "length (addSceneCalls
     (run stage [Commit sampleProps sampleEnv, Settle 0 (Rejected (Some ''boom'')),
                 Commit (sampleProps\<lparr>onLoad := Some 2\<rparr>) sampleEnv,
                 Settle 1 (Rejected (Some ''boom'')),
                 Commit (sampleProps\<lparr>onLoad := Some 3\<rparr>) sampleEnv])) = 3"
proof -
  have n2: "onLoad sampleProps \<noteq> Some 2" by (simp add: sample_onLoad)
  note r1 = retry_round [OF failedOnce_fields(5) failedOnce_fields(2,3,6,7) valid_sample
                sample_onLoad(2) sample_source sample_engine n2]
  show "length (addSceneCalls (commit (sampleProps\<lparr>onLoad := Some 2\<rparr>) sampleEnv failedOnce)) = 2"
    using r1(1) by (simp add: failedOnce_fields)
  let ?p2 = "sampleProps\<lparr>onLoad := Some 2\<rparr>"
  let ?s2 = "settle 1 (Rejected (Some ''boom'')) (commit ?p2 sampleEnv failedOnce)"
  have v2: "validationError ?p2 = None" "isScriptLoaded ?p2"
    "truthy (jsonFilePath ?p2) \<or> truthy (projectId ?p2)" "onLoad ?p2 \<noteq> Some 3"
    using valid_sample sample_source by (simp_all add: validationError_def sample_onLoad)
  have s2: "rendered ?s2 = Some ?p2" "sceneRef ?s2 = None" "\<not> isInitializingRef ?s2"
    "element ?s2 \<noteq> None" "pending ?s2 = []" "length (addSceneCalls ?s2) = 2"
    using r1 by (simp_all add: failedOnce_next failedOnce_fields)
  note r2 = retry_round [OF s2(1-5) v2(1-3) sample_engine v2(4)]
  have e: "run stage [Commit sampleProps sampleEnv, Settle 0 (Rejected (Some ''boom'')),
                 Commit ?p2 sampleEnv, Settle 1 (Rejected (Some ''boom'')),
                 Commit (sampleProps\<lparr>onLoad := Some 3\<rparr>) sampleEnv]
           = commit (?p2\<lparr>onLoad := Some 3\<rparr>) sampleEnv ?s2"
    by (simp add: failedOnce_eq)
  show "length (addSceneCalls
     (run stage [Commit sampleProps sampleEnv, Settle 0 (Rejected (Some ''boom'')),
                 Commit (sampleProps\<lparr>onLoad := Some 2\<rparr>) sampleEnv,
                 Settle 1 (Rejected (Some ''boom'')),
                 Commit (sampleProps\<lparr>onLoad := Some 3\<rparr>) sampleEnv])) = 3"
    using r2(1) s2(6) by (simp only: e)
qed

section \<open>Source selection\<close>

text \<open>
  C7. An attempt that has passed the guards and found the engine attaches exactly one
  source: \<open>filePath\<close> (and no \<open>projectId\<close>) when \<open>jsonFilePath\<close> is present, also when
  \<open>projectId\<close> is present too; \<open>projectId\<close> only when \<open>jsonFilePath\<close> is absent; and
  when neither is present it fails with the configuration error and \<open>addScene\<close> is not
  called. Present is what the source tests: the value is truthy, that is, defined and not
  the empty string. No call of \<open>initializeScene\<close> hands \<open>addScene\<close> a configuration with
  both sources or with none.
\<close>

theorem source_selection:
  "(passesGuards p s \<and> engineAvailable ev \<and> truthy (jsonFilePath p) \<longrightarrow>
      (\<exists>cfg. addSceneCalls (initializeScene p ev s) = addSceneCalls s @ [cfg]
             \<and> filePath cfg = jsonFilePath p \<and> cfg_projectId cfg = None))
   \<and> (passesGuards p s \<and> engineAvailable ev \<and> \<not> truthy (jsonFilePath p)
       \<and> truthy (projectId p) \<longrightarrow>
      (\<exists>cfg. addSceneCalls (initializeScene p ev s) = addSceneCalls s @ [cfg]
             \<and> cfg_projectId cfg = projectId p \<and> filePath cfg = None))
   \<and> (passesGuards p s \<and> engineAvailable ev \<and> \<not> truthy (jsonFilePath p)
       \<and> \<not> truthy (projectId p) \<longrightarrow>
      addSceneCalls (initializeScene p ev s) = addSceneCalls s
      \<and> pending (initializeScene p ev s) = pending s
      \<and> initError (initializeScene p ev s) = Some ''No project ID or JSON file path provided'')
   \<and> (addSceneCalls (initializeScene p ev s) = addSceneCalls s
       \<or> (\<exists>cfg. addSceneCalls (initializeScene p ev s) = addSceneCalls s @ [cfg]
                \<and> (filePath cfg = None) \<noteq> (cfg_projectId cfg = None)))"
proof (intro conjI impI)
  assume a: "passesGuards p s \<and> engineAvailable ev \<and> truthy (jsonFilePath p)"
  then show "\<exists>cfg. addSceneCalls (initializeScene p ev s) = addSceneCalls s @ [cfg]
             \<and> filePath cfg = jsonFilePath p \<and> cfg_projectId cfg = None"
    by (simp add: initializeScene_calls_source(1) addProjectSource_file baseConfig_def)
next
  assume a: "passesGuards p s \<and> engineAvailable ev \<and> \<not> truthy (jsonFilePath p)
       \<and> truthy (projectId p)"
  then show "\<exists>cfg. addSceneCalls (initializeScene p ev s) = addSceneCalls s @ [cfg]
             \<and> cfg_projectId cfg = projectId p \<and> filePath cfg = None"
    by (simp add: initializeScene_calls_source(1) addProjectSource_project baseConfig_def)
next
  assume a: "passesGuards p s \<and> engineAvailable ev \<and> \<not> truthy (jsonFilePath p)
       \<and> \<not> truthy (projectId p)"
  then show "addSceneCalls (initializeScene p ev s) = addSceneCalls s"
    and "pending (initializeScene p ev s) = pending s"
    and "initError (initializeScene p ev s) = Some ''No project ID or JSON file path provided''"
    by (simp_all add: initializeScene_calls_noSource)
next
  show "addSceneCalls (initializeScene p ev s) = addSceneCalls s
       \<or> (\<exists>cfg. addSceneCalls (initializeScene p ev s) = addSceneCalls s @ [cfg]
                \<and> (filePath cfg = None) \<noteq> (cfg_projectId cfg = None))"
  proof (cases "passesGuards p s \<and> engineAvailable ev
                \<and> (truthy (jsonFilePath p) \<or> truthy (projectId p))")
    case False
    then have "addSceneCalls (initializeScene p ev s) = addSceneCalls s"
      using initializeScene_calls_blocked(1) initializeScene_calls_noEngine(1)
        initializeScene_calls_noSource(1) by blast
    then show ?thesis by simp
  next
    case True
    show ?thesis
    proof (cases "truthy (jsonFilePath p)")
      case t: True
      with True truthy_Some [of "jsonFilePath p"] show ?thesis
        by (auto simp add: initializeScene_calls_source(1) addProjectSource_file baseConfig_def)
    next
      case f: False
      with True truthy_Some [of "projectId p"] show ?thesis
        by (auto simp add: initializeScene_calls_source(1) addProjectSource_project baseConfig_def)
    qed
  qed
qed

theorem source_selection_witness:
  "passesGuards (sampleProps\<lparr>jsonFilePath := Some ''/scenes/hero.json''\<rparr>) stage
   \<and> truthy (projectId (sampleProps\<lparr>jsonFilePath := Some ''/scenes/hero.json''\<rparr>))
   \<and> (\<exists>cfg. addSceneCalls (initializeScene
                (sampleProps\<lparr>jsonFilePath := Some ''/scenes/hero.json''\<rparr>) sampleEnv stage)
              = addSceneCalls stage @ [cfg]
            \<and> filePath cfg = Some ''/scenes/hero.json'' \<and> cfg_projectId cfg = None)
   \<and> (\<exists>cfg. addSceneCalls (initializeScene sampleProps sampleEnv stage)
              = addSceneCalls stage @ [cfg]
            \<and> cfg_projectId cfg = Some ''my-project-id'' \<and> filePath cfg = None)
   \<and> passesGuards (sampleProps\<lparr>projectId := None\<rparr>) stage
   \<and> addSceneCalls (initializeScene (sampleProps\<lparr>projectId := None\<rparr>) sampleEnv stage)
       = addSceneCalls stage
   \<and> initError (initializeScene (sampleProps\<lparr>projectId := None\<rparr>) sampleEnv stage)
       = Some ''No project ID or JSON file path provided''"
proof -
  let ?both = "sampleProps\<lparr>jsonFilePath := Some ''/scenes/hero.json''\<rparr>"
  let ?none = "sampleProps\<lparr>projectId := None\<rparr>"
  have t: "truthy (projectId ?both)" by (simp add: sampleProps_def)
  have h1: "passesGuards ?both stage \<and> engineAvailable sampleEnv \<and> truthy (jsonFilePath ?both)"
    using sample_engine by (simp add: passes_stage sample_variants_valid)
  have h2: "passesGuards sampleProps stage \<and> engineAvailable sampleEnv
            \<and> \<not> truthy (jsonFilePath sampleProps) \<and> truthy (projectId sampleProps)"
    using sample_engine sample_passes by (simp add: sampleProps_def)
  have h3: "passesGuards ?none stage \<and> engineAvailable sampleEnv
            \<and> \<not> truthy (jsonFilePath ?none) \<and> \<not> truthy (projectId ?none)"
    using sample_engine by (simp add: passes_stage sample_variants_valid) (simp add: sampleProps_def)
  have j: "jsonFilePath ?both = Some ''/scenes/hero.json''" by simp
  have k: "projectId sampleProps = Some ''my-project-id''" by (simp add: sampleProps_def)
  have a: "\<exists>cfg. addSceneCalls (initializeScene ?both sampleEnv stage) = addSceneCalls stage @ [cfg]
            \<and> filePath cfg = jsonFilePath ?both \<and> cfg_projectId cfg = None"
    using source_selection [of ?both stage sampleEnv] h1 by blast
  have b: "\<exists>cfg. addSceneCalls (initializeScene sampleProps sampleEnv stage)
              = addSceneCalls stage @ [cfg]
            \<and> cfg_projectId cfg = projectId sampleProps \<and> filePath cfg = None"
    using source_selection [of sampleProps stage sampleEnv] h2 by blast
  have c: "addSceneCalls (initializeScene ?none sampleEnv stage) = addSceneCalls stage
      \<and> initError (initializeScene ?none sampleEnv stage)
           = Some ''No project ID or JSON file path provided''"
    using source_selection [of ?none stage sampleEnv] h3 by blast
  from t h1 h3 a b c show ?thesis unfolding j k by blast
qed

section \<open>Requests while an attempt is in flight\<close>

text \<open>
  C1. The claim is that a request made while an earlier one has not settled is dropped
  before the engine is called, so that two back-to-back requests give one call of
  \<open>addScene\<close>. On the code, \<open>destroyScene\<close> (line 197) clears \<open>isInitializingRef\<close> right
  after line 194 has set it, so the guard of line 175 lets the second request through:
  two back-to-back requests for the sample configuration give two calls of \<open>addScene\<close>
  and leave two attempts suspended.
  The same happens through the effects: a commit of the sample configuration followed,
  before the attempt settles, by a commit that changes only the accessibility text.
\<close>

theorem back_to_back_requests_call_engine_twice:
  "length (addSceneCalls (initializeScene sampleProps sampleEnv
            (initializeScene sampleProps sampleEnv stage))) = 2
   \<and> map attemptId (pending (initializeScene sampleProps sampleEnv
            (initializeScene sampleProps sampleEnv stage))) = [0, 1]
   \<and> length (addSceneCalls (run stage [Commit sampleProps sampleEnv,
                                     Commit retitledProps sampleEnv])) = 2
   \<and> length (pending (run stage [Commit sampleProps sampleEnv,
                                  Commit retitledProps sampleEnv])) = 2"
  using sample_two_requests sample_two_commits by simp

theorem back_to_back_requests_call_engine_twice_witness:
  "passesGuards sampleProps stage \<and> engineAvailable sampleEnv
   \<and> passesGuards sampleProps (initializeScene sampleProps sampleEnv stage)
   \<and> length (addSceneCalls (initializeScene sampleProps sampleEnv
            (initializeScene sampleProps sampleEnv stage))) = 2
   \<and> length (addSceneCalls (run stage [Commit sampleProps sampleEnv,
                                     Commit retitledProps sampleEnv])) = 2"
proof -
  have p1: "passesGuards sampleProps (initializeScene sampleProps sampleEnv stage)"
    by (rule passes_again [OF sample_passes sample_engine sample_source]) simp
  from back_to_back_requests_call_engine_twice sample_passes sample_engine p1
  show ?thesis by blast
qed

text \<open>
  C2. The claim is that \<open>isInitializingRef\<close> is true for the whole duration of an attempt
  in flight. On the code, after the first request for the sample configuration the
  attempt is suspended at its \<open>await\<close> and the flag is already false.
\<close>

theorem flag_false_during_attempt:
  "map attemptId (pending (initializeScene sampleProps sampleEnv stage)) = [0]
   \<and> \<not> isInitializingRef (initializeScene sampleProps sampleEnv stage)"
  by (simp add: initializeScene_calls_source [OF sample_passes sample_engine sample_source])

theorem flag_false_during_attempt_witness:
  "passesGuards sampleProps stage \<and> engineAvailable sampleEnv
   \<and> isScriptLoaded sampleProps \<and> truthy (projectId sampleProps)
   \<and> pending (initializeScene sampleProps sampleEnv stage) \<noteq> []
   \<and> \<not> isInitializingRef (initializeScene sampleProps sampleEnv stage)"
proof -
  have l: "isScriptLoaded sampleProps \<and> truthy (projectId sampleProps)"
    by (simp add: sampleProps_def)
  from flag_false_during_attempt
  have "pending (initializeScene sampleProps sampleEnv stage) \<noteq> []
        \<and> \<not> isInitializingRef (initializeScene sampleProps sampleEnv stage)"
    by auto
  with sample_passes sample_engine l show ?thesis by blast
qed

section \<open>Timeout of an attempt\<close>

text \<open>
  C3. In every state the controller can reach, when the timer of a suspended attempt
  fires before the engine's promise settles, the attempt fails: the error state becomes
  \<open>Loading timeout\<close>, \<open>onError\<close> (when given) is called with that message, and the
  scene handle is left as it was. Whatever happens afterwards, an outcome that arrives
  later for the same attempt, a resolution with a handle included, changes nothing, so it
  is never stored as the current handle. Every timer the controller sets is one of
  15000 milliseconds.
\<close>

theorem timeout_reported_late_result_discarded:
  assumes "find (\<lambda>a. attemptId a = i) (pending (run (mounted el) es)) = Some a"
  shows "initError (settle i TimedOut (run (mounted el) es)) = Some ''Loading timeout''
       \<and> calls (settle i TimedOut (run (mounted el) es)) =
           calls (run (mounted el) es) @ [ClearTimeout i]
             @ (case att_onError a of None \<Rightarrow> [] | Some c \<Rightarrow> [OnError c ''Loading timeout''])
       \<and> sceneRef (settle i TimedOut (run (mounted el) es)) = sceneRef (run (mounted el) es)
       \<and> (\<forall>later out.
             settle i out (run (settle i TimedOut (run (mounted el) es)) later) =
               run (settle i TimedOut (run (mounted el) es)) later)
       \<and> list_all (isTimerOf 15000) (calls (run (mounted el) es))"
proof -
  let ?s = "run (mounted el) es"
  let ?t = "settle i TimedOut ?s"
  have fresh: "attemptsFresh ?s"
    by (rule run_fresh [OF mounted_fresh])
  from find_attempt_Some [OF assms] have a: "a \<in> set (pending ?s)" "attemptId a = i"
    by simp_all
  with fresh have used: "i < nextAttempt ?s"
    by (auto simp add: attemptsFresh_def list_all_iff)
  have gone: "i < nextAttempt ?t" "i \<notin> attemptId ` set (pending ?t)"
    using used by auto
  have late: "\<forall>later out. settle i out (run ?t later) = run ?t later"
  proof (intro allI)
    fix later out
    from run_gone [OF gone, of later] show "settle i out (run ?t later) = run ?t later"
      by (simp add: settle_absent)
  qed
  have timers: "list_all (isTimerOf 15000) (calls ?s)"
    using run_timers [of "mounted el" es] by (simp add: mounted_def timeoutMs_def)
  from settle_timeout [OF assms] late timers show ?thesis by simp
qed

theorem timeout_reported_late_result_discarded_witness:
  "find (\<lambda>a. attemptId a = 0) (pending (run (mounted (Some ''stage'')) [Commit sampleProps sampleEnv]))
     = Some \<lparr>attemptId = 0, att_onLoad = Some 0, att_onError = Some 1\<rparr>
   \<and> initError (settle 0 TimedOut (run (mounted (Some ''stage'')) [Commit sampleProps sampleEnv]))
       = Some ''Loading timeout''
   \<and> calls (settle 0 TimedOut (run (mounted (Some ''stage'')) [Commit sampleProps sampleEnv]))
       = calls (run (mounted (Some ''stage'')) [Commit sampleProps sampleEnv])
           @ [ClearTimeout 0, OnError 1 ''Loading timeout'']
   \<and> settle 0 (Resolved (Some \<lparr>sceneId = 7, hasDestroy = True, paused_prop = None\<rparr>))
       (run (settle 0 TimedOut (run (mounted (Some ''stage'')) [Commit sampleProps sampleEnv]))
            [Commit retitledProps sampleEnv])
     = run (settle 0 TimedOut (run (mounted (Some ''stage'')) [Commit sampleProps sampleEnv]))
           [Commit retitledProps sampleEnv]"
proof -
  let ?s = "run (mounted (Some ''stage'')) [Commit sampleProps sampleEnv]"
  let ?a = "\<lparr>attemptId = 0, att_onLoad = Some 0, att_onError = Some (1::nat)\<rparr>"
  have h: "find (\<lambda>a. attemptId a = 0) (pending ?s) = Some ?a"
    using sample_commit
    by (simp add: stage_def [symmetric]
          initializeScene_calls_source [OF sample_passes sample_engine sample_source])
       (simp add: sampleProps_def)
  note t = timeout_reported_late_result_discarded [OF h]
  from t have e: "initError (settle 0 TimedOut ?s) = Some ''Loading timeout''"
    by blast
  from t have c: "calls (settle 0 TimedOut ?s) =
      calls ?s @ [ClearTimeout 0]
        @ (case att_onError ?a of None \<Rightarrow> [] | Some c \<Rightarrow> [OnError c ''Loading timeout''])"
    by blast
  from t have l: "\<forall>later out. settle 0 out (run (settle 0 TimedOut ?s) later)
                    = run (settle 0 TimedOut ?s) later"
    by blast
  from c have c': "calls (settle 0 TimedOut ?s) =
      calls ?s @ [ClearTimeout 0, OnError 1 ''Loading timeout'']"
    by simp
  from h e c' l show ?thesis by blast
qed

section \<open>The configuration fingerprint\<close>

text \<open>
  C4. The fingerprint is derived from \<open>projectId\<close>, \<open>jsonFilePath\<close>, \<open>scale\<close>, \<open>dpi\<close>, \<open>fps\<close>
  and \<open>production\<close> only: two configurations that agree on these six fields have the same
  fingerprint, whatever their \<open>altText\<close>, \<open>ariaLabel\<close>, \<open>lazyLoad\<close> and \<open>paused\<close> are. When
  the second is committed to a controller that holds a live scene for the first, the
  engine is not called (no \<open>addScene\<close>, no \<open>destroy\<close>), no attempt is started and the
  same scene stays current.
\<close>

theorem fingerprint_ignores_presentation_fields:
  "projectId p = projectId q \<and> jsonFilePath p = jsonFilePath q \<and> scale p = scale q
   \<and> dpi p = dpi q \<and> fps p = fps q \<and> production p = production q
   \<longrightarrow> configKey p = configKey q
       \<and> (\<forall>s sc ev. rendered s = Some p \<and> sceneRef s = Some sc
                     \<and> initializationKeyRef s = configKey p
            \<longrightarrow> engineCalls (commit q ev s) = engineCalls s
                \<and> pending (commit q ev s) = pending s
                \<and> (\<exists>sc'. sceneRef (commit q ev s) = Some sc' \<and> sceneId sc' = sceneId sc))"
proof (intro impI conjI allI)
  assume a: "projectId p = projectId q \<and> jsonFilePath p = jsonFilePath q \<and> scale p = scale q
   \<and> dpi p = dpi q \<and> fps p = fps q \<and> production p = production q"
  then show k: "configKey p = configKey q" by (simp add: configKey_def)
  from a have d: "\<not> keyDepsChanged p q" by (simp add: keyDepsChanged_def)
  fix s :: controller and sc :: scene and ev :: env
  assume b: "rendered s = Some p \<and> sceneRef s = Some sc \<and> initializationKeyRef s = configKey p"
  then have r: "rendered s = Some p" and sc: "sceneRef s = Some sc"
    and kq: "initializationKeyRef s = configKey q" using k by simp_all
  show "engineCalls (commit q ev s) = engineCalls s"
    by (rule commit_keeps_scene(1) [OF r d kq sc])
  show "pending (commit q ev s) = pending s"
    by (rule commit_keeps_scene(2) [OF r d kq sc])
  show "\<exists>sc'. sceneRef (commit q ev s) = Some sc' \<and> sceneId sc' = sceneId sc"
    by (rule commit_keeps_scene(3) [OF r d kq sc])
qed

theorem fingerprint_ignores_presentation_fields_witness:
  "projectId sampleProps = projectId (retitledProps\<lparr>lazyLoad := False, paused := Some True\<rparr>)
   \<and> altText sampleProps \<noteq> altText (retitledProps\<lparr>lazyLoad := False, paused := Some True\<rparr>)
   \<and> configKey sampleProps = configKey (retitledProps\<lparr>lazyLoad := False, paused := Some True\<rparr>)
   \<and> rendered liveScene = Some sampleProps
   \<and> sceneRef liveScene = Some \<lparr>sceneId = 7, hasDestroy = True, paused_prop = None\<rparr>
   \<and> engineCalls (commit (retitledProps\<lparr>lazyLoad := False, paused := Some True\<rparr>)
                     sampleEnv liveScene) = engineCalls liveScene
   \<and> pending (commit (retitledProps\<lparr>lazyLoad := False, paused := Some True\<rparr>)
                     sampleEnv liveScene) = pending liveScene"
proof -
  let ?q = "retitledProps\<lparr>lazyLoad := False, paused := Some True\<rparr>"
  have h: "projectId sampleProps = projectId ?q \<and> jsonFilePath sampleProps = jsonFilePath ?q
     \<and> scale sampleProps = scale ?q \<and> dpi sampleProps = dpi ?q \<and> fps sampleProps = fps ?q
     \<and> production sampleProps = production ?q"
    by (simp add: retitledProps_def)
  have d: "altText sampleProps \<noteq> altText ?q"
    by (simp add: retitledProps_def sampleProps_def)
  have g: "rendered liveScene = Some sampleProps
     \<and> sceneRef liveScene = Some \<lparr>sceneId = 7, hasDestroy = True, paused_prop = None\<rparr>
     \<and> initializationKeyRef liveScene = configKey sampleProps"
    by (simp add: liveScene_fields)
  from fingerprint_ignores_presentation_fields [of sampleProps ?q] h
  have a: "configKey sampleProps = configKey ?q"
    and b: "\<forall>s sc ev. rendered s = Some sampleProps \<and> sceneRef s = Some sc
                     \<and> initializationKeyRef s = configKey sampleProps
            \<longrightarrow> engineCalls (commit ?q ev s) = engineCalls s
                \<and> pending (commit ?q ev s) = pending s
                \<and> (\<exists>sc'. sceneRef (commit ?q ev s) = Some sc' \<and> sceneId sc' = sceneId sc)"
    by blast+
  from b g have c: "engineCalls (commit ?q sampleEnv liveScene) = engineCalls liveScene
                \<and> pending (commit ?q sampleEnv liveScene) = pending liveScene"
    by blast
  from h d a g c show ?thesis by blast
qed

section \<open>Retries after a failure\<close>

text \<open>
  C5. The claim is that a failed attempt is not retried automatically: a repeated
  initialization request with the same fingerprint and unchanged script state performs
  no new \<open>addScene\<close> call. On the code nothing stops it: \<open>hasAttemptedRef\<close> is written at
  lines 193, 257 and 326 and read nowhere, and the guard of line 184 needs a live scene.
  After the engine rejects the attempt for the sample configuration, the same request
  again calls \<open>addScene\<close> a second time; so does a commit that changes only the
  accessibility text; so does a commit in which only the identity of \<open>onLoad\<close> is new,
  as in every render of the components of the repository, which pass an inline
  \<open>onLoad\<close>; and when that attempt is rejected too, the next such commit calls
  \<open>addScene\<close> a third time.
\<close>

theorem failed_attempt_retried_on_same_fingerprint:
  "initError failedOnce = Some ''boom''
   \<and> initializationKeyRef failedOnce = configKey sampleProps
   \<and> configKey retitledProps = configKey sampleProps
   \<and> isScriptLoaded retitledProps = isScriptLoaded sampleProps
   \<and> length (addSceneCalls failedOnce) = 1
   \<and> length (addSceneCalls (initializeScene sampleProps sampleEnv failedOnce)) = 2
   \<and> length (addSceneCalls (commit retitledProps sampleEnv failedOnce)) = 2
   \<and> length (addSceneCalls (commit (sampleProps\<lparr>onLoad := Some 2\<rparr>) sampleEnv failedOnce)) = 2
   \<and> length (addSceneCalls
         (run stage [Commit sampleProps sampleEnv, Settle 0 (Rejected (Some ''boom'')),
                     Commit (sampleProps\<lparr>onLoad := Some 2\<rparr>) sampleEnv,
                     Settle 1 (Rejected (Some ''boom'')),
                     Commit (sampleProps\<lparr>onLoad := Some 3\<rparr>) sampleEnv])) = 3"
proof -
  have c: "commit retitledProps sampleEnv failedOnce =
             (initEffect retitledProps sampleEnv failedOnce)\<lparr>rendered := Some retitledProps\<rparr>"
    by (rule commit_init_only [where old = sampleProps]) (simp_all add: failedOnce_fields retitled_facts)
  note f = initializeScene_calls_source [OF failedOnce_passes sample_engine sample_source]
  note g = initializeScene_calls_source
             [OF failedOnce_passes_retitled sample_engine retitled_facts(8)]
  have l: "isScriptLoaded sampleProps" by (simp add: sampleProps_def)
  have first: "initError failedOnce = Some ''boom''
   \<and> initializationKeyRef failedOnce = configKey sampleProps
   \<and> configKey retitledProps = configKey sampleProps
   \<and> isScriptLoaded retitledProps = isScriptLoaded sampleProps
   \<and> length (addSceneCalls failedOnce) = 1
   \<and> length (addSceneCalls (initializeScene sampleProps sampleEnv failedOnce)) = 2
   \<and> length (addSceneCalls (commit retitledProps sampleEnv failedOnce)) = 2"
    by (simp add: c initEffect_def retitled_facts f g failedOnce_fields l)
  from first sample_rerenders show ?thesis by blast
qed

theorem failed_attempt_retried_on_same_fingerprint_witness:
  "passesGuards sampleProps failedOnce \<and> engineAvailable sampleEnv
   \<and> sceneRef failedOnce = None \<and> \<not> isInitializingRef failedOnce
   \<and> length (addSceneCalls failedOnce) = 1
   \<and> length (addSceneCalls (initializeScene sampleProps sampleEnv failedOnce)) = 2
   \<and> length (addSceneCalls
         (run stage [Commit sampleProps sampleEnv, Settle 0 (Rejected (Some ''boom'')),
                     Commit (sampleProps\<lparr>onLoad := Some 2\<rparr>) sampleEnv,
                     Settle 1 (Rejected (Some ''boom'')),
                     Commit (sampleProps\<lparr>onLoad := Some 3\<rparr>) sampleEnv])) = 3"
  using failed_attempt_retried_on_same_fingerprint failedOnce_passes sample_engine
    failedOnce_fields(2,3)
  by blast

section \<open>The reset effect\<close>

text \<open>
  C10. The claim is that whenever the configuration changes the controller clears its
  exposed error, resets the attempted and initializing flags and empties the recorded
  fingerprint, so that a surfaced error stops being observable as soon as the
  configuration changes, before and regardless of whether a new attempt runs; the
  comment of line 322 says the same (reset state when projectId or jsonFilePath
  changes). On the code, after the failed attempt for the sample configuration, a commit
  for another project with the script loaded runs the initialization effect first
  (line 311, declared before the reset effect of line 323): it starts the new attempt
  and records the new fingerprint, the reset effect then finds nothing to reset, and the
  error of the old configuration is still exposed after the commit. The same change
  with the script not loaded does clear the error.
\<close>

theorem error_survives_configuration_change:
  "initError failedOnce = Some ''boom''
   \<and> configKey otherProject \<noteq> initializationKeyRef failedOnce
   \<and> keyDepsChanged sampleProps otherProject
   \<and> rendered failedOnce = Some sampleProps
   \<and> initError (commit otherProject sampleEnv failedOnce) = Some ''boom''
   \<and> length (pending (commit otherProject sampleEnv failedOnce)) = 1
   \<and> initializationKeyRef (commit otherProject sampleEnv failedOnce) = configKey otherProject
   \<and> initError (commit (otherProject\<lparr>isScriptLoaded := False\<rparr>) sampleEnv failedOnce) = None"
proof -
  have c: "commit otherProject sampleEnv failedOnce =
             (resetEffect otherProject (initEffect otherProject sampleEnv failedOnce))
               \<lparr>rendered := Some otherProject\<rparr>"
    by (rule commit_init_reset [where old = sampleProps]) (simp_all add: failedOnce_fields other_facts)
  note g = initializeScene_calls_source
             [OF failedOnce_passes_other sample_engine other_facts(8)]
  have r: "resetEffect otherProject (initializeScene otherProject sampleEnv failedOnce) =
             initializeScene otherProject sampleEnv failedOnce"
    by (rule resetEffect_same) (simp add: g)
  have first: "initError failedOnce = Some ''boom''
   \<and> configKey otherProject \<noteq> initializationKeyRef failedOnce
   \<and> keyDepsChanged sampleProps otherProject
   \<and> rendered failedOnce = Some sampleProps
   \<and> initError (commit otherProject sampleEnv failedOnce) = Some ''boom''
   \<and> length (pending (commit otherProject sampleEnv failedOnce)) = 1
   \<and> initializationKeyRef (commit otherProject sampleEnv failedOnce) = configKey otherProject"
    by (simp add: c initEffect_def other_facts r g failedOnce_fields)
  have k: "initializationKeyRef failedOnce \<noteq> configKey (otherProject\<lparr>isScriptLoaded := False\<rparr>)"
    using other_facts(6) by (simp add: failedOnce_fields unloaded_facts)
  have sibling: "initError (commit (otherProject\<lparr>isScriptLoaded := False\<rparr>) sampleEnv failedOnce) = None"
    by (rule commit_not_loaded(1) [OF failedOnce_fields(5) unloaded_facts(1) k unloaded_facts(3)])
  from first sibling show ?thesis by blast
qed

theorem error_survives_configuration_change_witness:
  "passesGuards otherProject failedOnce \<and> engineAvailable sampleEnv
   \<and> isScriptLoaded otherProject
   \<and> configKey otherProject \<noteq> initializationKeyRef failedOnce
   \<and> initError failedOnce = Some ''boom''
   \<and> initError (commit otherProject sampleEnv failedOnce) = Some ''boom''
   \<and> \<not> isScriptLoaded (otherProject\<lparr>isScriptLoaded := False\<rparr>)
   \<and> initError (commit (otherProject\<lparr>isScriptLoaded := False\<rparr>) sampleEnv failedOnce) = None"
  using error_survives_configuration_change failedOnce_passes_other sample_engine
    other_facts(7) unloaded_facts(3)
  by blast

section \<open>Script loader\<close>

lemma selectorValue_plain: "cssPlain url \<Longrightarrow> selectorValue url = Some url"
  by (induction url rule: selectorValue.induct) (auto simp add: cssPlain_def)

lemma firstIndex_None: "(firstIndex P xs = None) = (\<forall>x \<in> set xs. \<not> P x)"
  by (induction xs) auto

lemma firstIndex_Some: "firstIndex P xs = Some k \<Longrightarrow> k < length xs \<and> P (xs ! k)"
  by (induction xs arbitrary: k) (auto split: if_splits)

lemma querySelector_None: "(querySelector v pg = None) = (v \<notin> set (map src (scripts pg)))"
  by (auto simp add: querySelector_def firstIndex_None)

lemma querySelector_Some:
  "querySelector v pg = Some k \<Longrightarrow> k < length (scripts pg) \<and> src (scripts pg ! k) = v"
  using firstIndex_Some [of "\<lambda>e. src e = v" "scripts pg" k] by (simp add: querySelector_def)

lemma updAt_src: "(\<And>e. src (f e) = src e) \<Longrightarrow> map src (updAt k f es) = map src es"
  by (simp add: updAt_def map_update list_update_same_conv)

lemma length_updAt [simp]: "length (updAt k f es) = length es"
  by (simp add: updAt_def)

lemma nth_updAt: "k < length es \<Longrightarrow> updAt k f es ! k = f (es ! k)"
  by (simp add: updAt_def)

lemma handlers_frame [simp]:
  "scripts (handleScriptLoad h pg) = scripts pg"
  "inserted (handleScriptLoad h pg) = inserted pg"
  "scripts (handleScriptError h pg) = scripts pg"
  "inserted (handleScriptError h pg) = inserted pg"
  by (simp_all add: handleScriptLoad_def handleScriptError_def)

lemma runListener_frame:
  "map src (scripts (runListener k pg l)) = map src (scripts pg)
   \<and> inserted (runListener k pg l) = inserted pg"
  by (cases l) (simp_all add: updAt_src)

lemma runListeners_frame:
  "map src (scripts (foldl (runListener k) pg ls)) = map src (scripts pg)
   \<and> inserted (foldl (runListener k) pg ls) = inserted pg"
proof (induction ls arbitrary: pg)
  case Nil
  then show ?case by simp
next
  case (Cons l ls)
  from Cons.IH [of "runListener k pg l"] runListener_frame [of k pg l]
  show ?case by simp
qed

text \<open>Once a hook instance is loaded it stays loaded, and its load handler loads it.\<close>

lemma runListener_keeps_loaded:
  "isLoaded (hooks pg h) \<Longrightarrow> isLoaded (hooks (runListener k pg l) h)"
  by (cases l) (auto simp add: handleScriptLoad_def handleScriptError_def)

lemma runListeners_keep_loaded:
  "isLoaded (hooks pg h) \<Longrightarrow> isLoaded (hooks (foldl (runListener k) pg ls) h)"
  by (induction ls arbitrary: pg) (simp_all add: runListener_keeps_loaded)

lemma runListeners_load:
  "HandleScriptLoad h \<in> set ls \<Longrightarrow> isLoaded (hooks (foldl (runListener k) pg ls) h)"
proof (induction ls arbitrary: pg)
  case Nil
  then show ?case by simp
next
  case (Cons l ls)
  show ?case
  proof (cases "l = HandleScriptLoad h")
    case True
    have "isLoaded (hooks (runListener k pg l) h)"
      by (simp add: True handleScriptLoad_def)
    from runListeners_keep_loaded [OF this] show ?thesis by simp
  next
    case False
    with Cons.prems have "HandleScriptLoad h \<in> set ls" by simp
    from Cons.IH [OF this] show ?thesis by simp
  qed
qed

lemma scriptEffect_existing:
  assumes "selectorValue url = Some v" "querySelector v pg = Some k"
  shows "\<exists>pg'. scriptEffect h url pg = Some pg'
            \<and> map src (scripts pg') = map src (scripts pg) \<and> inserted pg' = inserted pg"
  using assms by (simp add: scriptEffect_def updAt_src)

lemma scriptEffect_absent:
  assumes "selectorValue url = Some v" "querySelector v pg = None"
  shows "\<exists>pg'. scriptEffect h url pg = Some pg'
            \<and> map src (scripts pg') = map src (scripts pg) @ [url]
            \<and> inserted pg' = inserted pg @ [url]"
  using assms by (simp add: scriptEffect_def)

text \<open>
  A request with a plain URL appends at most one element, and only for a URL the page
  does not have.
\<close>

lemma serve_shape:
  assumes "plainRequest r"
  shows "\<exists>pg' new. serve pg r = Some pg'
         \<and> map src (scripts pg') = map src (scripts pg) @ new
         \<and> inserted pg' = inserted pg @ new
         \<and> distinct new \<and> set new \<inter> set (map src (scripts pg)) = {}"
proof (cases r)
  case (Effect h url)
  with assms have v: "selectorValue url = Some url" by (simp add: selectorValue_plain)
  show ?thesis
  proof (cases "querySelector url pg")
    case None
    from scriptEffect_absent [OF v None, of h] querySelector_None [of url pg] None Effect
    show ?thesis by auto
  next
    case (Some k)
    from scriptEffect_existing [OF v Some, of h] Effect show ?thesis by auto
  qed
next
  case (Cleanup h k)
  then show ?thesis by (simp add: scriptCleanup_def updAt_src)
next
  case (Load k)
  with runListeners_frame show ?thesis by (simp add: fireLoad_def)
next
  case (Error k)
  with runListeners_frame show ?thesis by (simp add: fireError_def)
qed

lemma serveAll_shape:
  "list_all plainRequest rs \<Longrightarrow>
   \<exists>pg' ins. serveAll pg rs = Some pg'
         \<and> map src (scripts pg') = map src (scripts pg) @ ins
         \<and> inserted pg' = inserted pg @ ins
         \<and> distinct ins \<and> set ins \<inter> set (map src (scripts pg)) = {}"
proof (induction rs arbitrary: pg)
  case Nil
  show ?case by simp
next
  case (Cons r rs)
  then have pr: "plainRequest r" and prs: "list_all plainRequest rs" by simp_all
  from serve_shape [OF pr, of pg]
  obtain pg1 new where n: "serve pg r = Some pg1"
    "map src (scripts pg1) = map src (scripts pg) @ new"
    "inserted pg1 = inserted pg @ new"
    "distinct new" "set new \<inter> set (map src (scripts pg)) = {}"
    by blast
  from Cons.IH [OF prs, of pg1]
  obtain pg' ins where i: "serveAll pg1 rs = Some pg'"
    "map src (scripts pg') = map src (scripts pg1) @ ins"
    "inserted pg' = inserted pg1 @ ins" "distinct ins"
    "set ins \<inter> set (map src (scripts pg1)) = {}"
    by blast
  have "serveAll pg (r # rs) = Some pg'"
    using n i by simp
  moreover have "map src (scripts pg') = map src (scripts pg) @ (new @ ins)"
    using n i by simp
  moreover have "inserted pg' = inserted pg @ (new @ ins)"
    using n i by simp
  moreover have "distinct (new @ ins)"
    using n i by auto
  moreover have "set (new @ ins) \<inter> set (map src (scripts pg)) = {}"
    using n i by auto
  ultimately show ?case by blast
qed

lemma distinct_count: "distinct xs \<Longrightarrow> count_list xs x \<le> 1"
  by (induction xs) auto

text \<open>
  For plain URLs the loader does what its doc comment says. From a page into which
  nothing was inserted yet, any sequence of requests with plain URLs is served, inserts
  at most one element for each URL and none for a URL the page had an element for.
\<close>

theorem plain_urls_one_element:
  assumes "list_all plainRequest rs" "inserted pg = []"
  shows "\<exists>pg'. serveAll pg rs = Some pg'
           \<and> distinct (inserted pg')
           \<and> count_list (inserted pg') url \<le> 1
           \<and> count_list (map src (scripts pg')) url
               = count_list (map src (scripts pg)) url + count_list (inserted pg') url
           \<and> (url \<in> set (map src (scripts pg)) \<longrightarrow> url \<notin> set (inserted pg'))"
proof -
  from serveAll_shape [OF assms(1), of pg] assms(2)
  obtain pg' ins where i: "serveAll pg rs = Some pg'"
    "map src (scripts pg') = map src (scripts pg) @ ins"
    "inserted pg' = ins" "distinct ins"
    "set ins \<inter> set (map src (scripts pg)) = {}"
    by auto
  have "distinct (inserted pg')" using i by simp
  moreover have "count_list (inserted pg') url \<le> 1"
    using i distinct_count [of ins url] by simp
  moreover have "count_list (map src (scripts pg')) url
               = count_list (map src (scripts pg)) url + count_list (inserted pg') url"
    using i by simp
  moreover have "url \<in> set (map src (scripts pg)) \<longrightarrow> url \<notin> set (inserted pg')"
    using i by auto
  ultimately show ?thesis using i(1) by blast
qed

text \<open>
  An effect for a plain URL whose element exists inserts nothing. When the element is
  marked loaded, the hook instance is loaded at once; otherwise its two handlers are on
  the element afterwards, and a later load event of the element loads the instance.
\<close>

theorem effect_on_existing_element:
  assumes p: "cssPlain url" and q: "querySelector url pg = Some k"
  shows "dataLoaded (scripts pg ! k) \<longrightarrow>
           scriptEffect h url pg = Some (handleScriptLoad h pg)
           \<and> isLoaded (hooks (handleScriptLoad h pg) h)
           \<and> scripts (handleScriptLoad h pg) = scripts pg
           \<and> inserted (handleScriptLoad h pg) = inserted pg"
    and "\<not> dataLoaded (scripts pg ! k) \<longrightarrow>
           (\<exists>pg'. scriptEffect h url pg = Some pg'
              \<and> length (scripts pg') = length (scripts pg) \<and> inserted pg' = inserted pg
              \<and> src (scripts pg' ! k) = url
              \<and> HandleScriptLoad h \<in> set (loadListeners (scripts pg' ! k))
              \<and> HandleScriptError h \<in> set (errorListeners (scripts pg' ! k))
              \<and> isLoaded (hooks (fireLoad k pg') h))"
proof -
  note v = selectorValue_plain [OF p]
  from querySelector_Some [OF q] have k: "k < length (scripts pg)" "src (scripts pg ! k) = url"
    by simp_all
  show "dataLoaded (scripts pg ! k) \<longrightarrow>
           scriptEffect h url pg = Some (handleScriptLoad h pg)
           \<and> isLoaded (hooks (handleScriptLoad h pg) h)
           \<and> scripts (handleScriptLoad h pg) = scripts pg
           \<and> inserted (handleScriptLoad h pg) = inserted pg"
    using v q by (simp add: scriptEffect_def) (simp add: handleScriptLoad_def)
  show "\<not> dataLoaded (scripts pg ! k) \<longrightarrow>
           (\<exists>pg'. scriptEffect h url pg = Some pg'
              \<and> length (scripts pg') = length (scripts pg) \<and> inserted pg' = inserted pg
              \<and> src (scripts pg' ! k) = url
              \<and> HandleScriptLoad h \<in> set (loadListeners (scripts pg' ! k))
              \<and> HandleScriptError h \<in> set (errorListeners (scripts pg' ! k))
              \<and> isLoaded (hooks (fireLoad k pg') h))"
  proof
    assume n: "\<not> dataLoaded (scripts pg ! k)"
    define attach where "attach = (\<lambda>e :: scriptElement. e\<lparr>loadListeners :=
                                  addListener (HandleScriptLoad h) (loadListeners e),
                                errorListeners :=
                                  addListener (HandleScriptError h) (errorListeners e)\<rparr>)"
    define pg' where "pg' = pg\<lparr>scripts := updAt k attach (scripts pg)\<rparr>"
    have e: "scriptEffect h url pg = Some pg'"
      using v q n by (simp add: scriptEffect_def pg'_def attach_def)
    have el: "scripts pg' ! k = attach (scripts pg ! k)"
      using k by (simp add: pg'_def nth_updAt)
    have l: "HandleScriptLoad h \<in> set (loadListeners (scripts pg' ! k))"
      by (simp add: el attach_def addListener_def)
    have r: "HandleScriptError h \<in> set (errorListeners (scripts pg' ! k))"
      by (simp add: el attach_def addListener_def)
    have s: "src (scripts pg' ! k) = url"
      using k by (simp add: el attach_def)
    have len: "length (scripts pg') = length (scripts pg)" "inserted pg' = inserted pg"
      by (simp_all add: pg'_def)
    have f: "isLoaded (hooks (fireLoad k pg') h)"
      using k len runListeners_load [OF l, of k pg'] by (simp add: fireLoad_def)
    from e len s l r f
    show "\<exists>pg'. scriptEffect h url pg = Some pg'
              \<and> length (scripts pg') = length (scripts pg) \<and> inserted pg' = inserted pg
              \<and> src (scripts pg' ! k) = url
              \<and> HandleScriptLoad h \<in> set (loadListeners (scripts pg' ! k))
              \<and> HandleScriptError h \<in> set (errorListeners (scripts pg' ! k))
              \<and> isLoaded (hooks (fireLoad k pg') h)"
      by blast
  qed
qed

lemma url_facts:
  "selectorValue backslashUrl = Some ''/sdkunicorn.js''"
  "selectorValue plainUrl = Some plainUrl"
  "\<not> cssPlain backslashUrl" "cssPlain plainUrl"
  by (simp_all add: backslashUrl_def plainUrl_def cssPlain_def endsString_def isLineBreak_def
        isHexDigit_def)

lemma backslash_twice:
  "map_option inserted (serveAll emptyPage [Effect 0 backslashUrl, Effect 1 backslashUrl])
     = Some [backslashUrl, backslashUrl]"
  "map_option (\<lambda>pg. map src (scripts pg))
       (serveAll emptyPage [Effect 0 backslashUrl, Effect 1 backslashUrl])
     = Some [backslashUrl, backslashUrl]"
  "map_option (\<lambda>pg. map loadListeners (scripts pg))
       (serveAll emptyPage [Effect 0 backslashUrl, Effect 1 backslashUrl])
     = Some [[MarkLoadedThenHandleScriptLoad 0], [MarkLoadedThenHandleScriptLoad 1]]"
proof -
  have n: "''/sdkunicorn.js'' \<noteq> backslashUrl" by (simp add: backslashUrl_def)
  show "map_option inserted (serveAll emptyPage [Effect 0 backslashUrl, Effect 1 backslashUrl])
     = Some [backslashUrl, backslashUrl]"
    using n by (simp add: scriptEffect_def url_facts querySelector_def emptyPage_def)
  show "map_option (\<lambda>pg. map src (scripts pg))
       (serveAll emptyPage [Effect 0 backslashUrl, Effect 1 backslashUrl])
     = Some [backslashUrl, backslashUrl]"
    using n by (simp add: scriptEffect_def url_facts querySelector_def emptyPage_def)
  show "map_option (\<lambda>pg. map loadListeners (scripts pg))
       (serveAll emptyPage [Effect 0 backslashUrl, Effect 1 backslashUrl])
     = Some [[MarkLoadedThenHandleScriptLoad 0], [MarkLoadedThenHandleScriptLoad 1]]"
    using n by (simp add: scriptEffect_def url_facts querySelector_def emptyPage_def)
qed

lemma plain_once:
  "map_option inserted (serveAll emptyPage [Effect 0 plainUrl, Effect 1 plainUrl])
     = Some [plainUrl]"
  "map_option (\<lambda>pg. map loadListeners (scripts pg))
       (serveAll emptyPage [Effect 0 plainUrl, Effect 1 plainUrl])
     = Some [[MarkLoadedThenHandleScriptLoad 0, HandleScriptLoad 1]]"
  "map_option (\<lambda>pg. (inserted pg, isLoaded (hooks pg 0), isLoaded (hooks pg 1)))
       (serveAll emptyPage [Effect 0 plainUrl, Load 0, Effect 1 plainUrl])
     = Some ([plainUrl], True, True)"
  by (simp_all add: scriptEffect_def url_facts querySelector_def emptyPage_def updAt_def
        addListener_def fireLoad_def handleScriptLoad_def)

text \<open>
  C9. The claim is that for every script URL at most one script element is inserted,
  a later request attaching its listeners to the existing element or reading its
  resolved state; the doc comment of the hook says that it prevents duplicate script
  tags. On the code the URL is pasted into the selector without escaping (lines 52 to
  54). For the URL \<open>/sdk\unicorn.js\<close> the selector asks for the attribute value
  \<open>/sdkunicorn.js\<close>, the element that the first effect inserted is not found, and the
  second effect inserts a second element for the same URL, with its own listeners.
  For the URL \<open>/sdk/unicorn.js\<close> the second effect finds the element, inserts nothing
  and adds its handler to the listeners of that element, or, when the element has
  loaded in between, reads its mark and is loaded at once.
\<close>

theorem backslash_url_inserted_twice:
  "selectorValue backslashUrl = Some ''/sdkunicorn.js''
   \<and> map_option inserted (serveAll emptyPage [Effect 0 backslashUrl, Effect 1 backslashUrl])
       = Some [backslashUrl, backslashUrl]
   \<and> map_option (\<lambda>pg. map src (scripts pg))
         (serveAll emptyPage [Effect 0 backslashUrl, Effect 1 backslashUrl])
       = Some [backslashUrl, backslashUrl]
   \<and> map_option (\<lambda>pg. map loadListeners (scripts pg))
         (serveAll emptyPage [Effect 0 backslashUrl, Effect 1 backslashUrl])
       = Some [[MarkLoadedThenHandleScriptLoad 0], [MarkLoadedThenHandleScriptLoad 1]]
   \<and> selectorValue plainUrl = Some plainUrl
   \<and> map_option inserted (serveAll emptyPage [Effect 0 plainUrl, Effect 1 plainUrl])
       = Some [plainUrl]
   \<and> map_option (\<lambda>pg. map loadListeners (scripts pg))
         (serveAll emptyPage [Effect 0 plainUrl, Effect 1 plainUrl])
       = Some [[MarkLoadedThenHandleScriptLoad 0, HandleScriptLoad 1]]
   \<and> map_option (\<lambda>pg. (inserted pg, isLoaded (hooks pg 0), isLoaded (hooks pg 1)))
         (serveAll emptyPage [Effect 0 plainUrl, Load 0, Effect 1 plainUrl])
       = Some ([plainUrl], True, True)"
  using url_facts(1,2) backslash_twice plain_once by blast

theorem backslash_url_inserted_twice_witness:
  "\<not> cssPlain backslashUrl \<and> cssPlain plainUrl
   \<and> backslashUrl = [CHR ''/'', CHR ''s'', CHR ''d'', CHR ''k'', CHR 0x5C, CHR ''u'', CHR ''n'',
                      CHR ''i'', CHR ''c'', CHR ''o'', CHR ''r'', CHR ''n'', CHR ''.'', CHR ''j'',
                      CHR ''s'']
   \<and> map_option inserted (serveAll emptyPage [Effect 0 backslashUrl, Effect 1 backslashUrl])
       = Some [backslashUrl, backslashUrl]
   \<and> map_option inserted (serveAll emptyPage [Effect 0 plainUrl, Effect 1 plainUrl])
       = Some [plainUrl]"
proof -
  have u: "backslashUrl = [CHR ''/'', CHR ''s'', CHR ''d'', CHR ''k'', CHR 0x5C, CHR ''u'', CHR ''n'',
                      CHR ''i'', CHR ''c'', CHR ''o'', CHR ''r'', CHR ''n'', CHR ''.'', CHR ''j'',
                      CHR ''s'']"
    by (simp add: backslashUrl_def)
  from backslash_url_inserted_twice url_facts(3,4) u show ?thesis by blast
qed

end
